theory Spec2Isabelle
  imports Complex_Main
begin

section \<open>Numbers and JSON values\<close>

text \<open>
  The TypeScript sources compute with JavaScript numbers. They are modelled as real numbers:
  rounding, overflow and the non-finite values are outside this model. Identifiers produced by
  \<^verbatim>\<open>Date.now()\<close> are integers, and the clock is a parameter of every operation that reads it.
\<close>

datatype json =
    JNull
  | JBool bool
  | JNum real
  | JStr string
  | JArr "json list"
  | JObj "(string \<times> json) list"

text \<open>\<^verbatim>\<open>Math.sign\<close>, \<^verbatim>\<open>Math.round\<close> and \<^verbatim>\<open>Math.atan2\<close> on finite numbers.\<close>

definition js_sign :: "real \<Rightarrow> real" where
  "js_sign v = (if v > 0 then 1 else if v < 0 then -1 else 0)"

definition js_round :: "real \<Rightarrow> real" where
  "js_round v = of_int \<lfloor>v + 1 / 2\<rfloor>"

definition js_atan2 :: "real \<Rightarrow> real \<Rightarrow> real" where
  "js_atan2 dy dx =
     (if dx > 0 then arctan (dy / dx)
      else if dx < 0 then (if dy \<ge> 0 then arctan (dy / dx) + pi else arctan (dy / dx) - pi)
      else if dy > 0 then pi / 2
      else if dy < 0 then - (pi / 2)
      else 0)"

section \<open>Data model (Canvas.tsx, EditorView.tsx)\<close>

record Point =
  p_x :: real
  p_y :: real

datatype StrokeTool = Pen

record Stroke =
  stroke_id :: int
  points :: "Point list"
  stroke_tool :: StrokeTool
  strokeWidth :: real
  color :: string

datatype ShapeType =
    Rectangle | Square | Circle | Oval | Line | Arrow
  | Triangle | RightTriangle | Rhombus | Parallelogram | Trapezoid
  | Pentagon | Hexagon | Star
  | Cuboid | Cone | Pyramid | Cylinder | Sphere

record Bounds =
  b_x :: real
  b_y :: real
  b_width :: real
  b_height :: real

record RecognizedText =
  text_id :: int
  text_value :: string
  bounds :: Bounds
  fontFamily :: string
  fontSize :: real

record ViewTransform =
  scale :: real
  offsetX :: real
  offsetY :: real

datatype BackgroundType = Copybook | Grid | Borderline | Plain

record CanvasStyle =
  backgroundColor :: string
  cs_fontFamily :: string
  cs_fontSize :: real
  backgroundType :: BackgroundType

record Page =
  page_id :: int
  strokes :: "Stroke list"
  texts :: "RecognizedText list"

record PenSettings =
  pen_size :: real
  pen_color :: string

record EraserSettings =
  eraser_size :: real

record ShapeSettings =
  shape_type :: ShapeType
  shape_size :: real
  shape_color :: string

record ToolSettings =
  pen :: PenSettings
  eraser :: EraserSettings
  shape :: ShapeSettings

datatype AnswerLength = Compact | Medium | Detailed

record AppState =
  pages :: "Page list"
  currentPageIndex :: nat
  canvasStyle :: CanvasStyle
  isGlobalStyleEnabled :: bool
  isSpellingCorrectionEnabled :: bool
  toolSettings :: ToolSettings
  answerLength :: AnswerLength

datatype Tool = ToolPen | ToolEraser | ToolHand | ToolSelect | ToolShape

section \<open>Geometry kernel (Canvas.tsx, lines 31-38)\<close>

definition MIN_ZOOM :: real where
  "MIN_ZOOM = 2 / 10"

definition MAX_ZOOM :: real where
  "MAX_ZOOM = 5"

definition PADDING :: real where
  "PADDING = 40"

definition getDistance :: "Point \<Rightarrow> Point \<Rightarrow> real" where
  "getDistance p1 p2 = sqrt ((p_x p2 - p_x p1)\<^sup>2 + (p_y p2 - p_y p1)\<^sup>2)"

definition getMidpoint :: "Point \<Rightarrow> Point \<Rightarrow> Point" where
  "getMidpoint p1 p2 = \<lparr>p_x = (p_x p1 + p_x p2) / 2, p_y = (p_y p1 + p_y p2) / 2\<rparr>"

definition boundsIntersect :: "Bounds \<Rightarrow> Bounds \<Rightarrow> bool" where
  "boundsIntersect b1 b2 \<longleftrightarrow>
     b_x b1 < b_x b2 + b_width b2 \<and> b_x b1 + b_width b1 > b_x b2 \<and>
     b_y b1 < b_y b2 + b_height b2 \<and> b_y b1 + b_height b1 > b_y b2"

definition pointInBounds :: "Point \<Rightarrow> Bounds \<Rightarrow> bool" where
  "pointInBounds p b \<longleftrightarrow>
     p_x p \<ge> b_x b \<and> p_x p \<le> b_x b + b_width b \<and> p_y p \<ge> b_y b \<and> p_y p \<le> b_y b + b_height b"

section \<open>Shape synthesizer (Canvas.tsx, lines 40-190)\<close>

definition pen_stroke :: "int \<Rightarrow> Point list \<Rightarrow> real \<Rightarrow> string \<Rightarrow> Stroke" where
  "pen_stroke i ps w c = \<lparr>stroke_id = i, points = ps, stroke_tool = Pen, strokeWidth = w, color = c\<rparr>"

definition pt :: "real \<Rightarrow> real \<Rightarrow> Point" where
  "pt a b = \<lparr>p_x = a, p_y = b\<rparr>"

text \<open>The counter values of \<^verbatim>\<open>for (let i = 0; i <= steps; i++)\<close>; \<open>steps\<close> need not be whole.\<close>

definition loop_upto :: "real \<Rightarrow> nat list" where
  "loop_upto steps = (if steps < 0 then [] else [0 ..< nat \<lfloor>steps\<rfloor> + 1])"

definition ellipse_steps :: "real \<Rightarrow> real \<Rightarrow> real" where
  "ellipse_steps a b = max 32 (of_int \<lfloor>pi * (a + b)\<rfloor> / 4)"

text \<open>One ellipse walk: the body shared by the loops of circle, oval, cone, cylinder and sphere.\<close>

definition ellipse_walk :: "real \<Rightarrow> real \<Rightarrow> real \<Rightarrow> real \<Rightarrow> real \<Rightarrow> Point list" where
  "ellipse_walk steps ecx ecy ax ay =
     map (\<lambda>i. let angle = (real i / steps) * 2 * pi
               in pt (ecx + ax * cos angle) (ecy + ay * sin angle)) (loop_upto steps)"

definition polygon_sides :: "ShapeType \<Rightarrow> nat" where
  "polygon_sides ty =
     (case ty of Pentagon \<Rightarrow> 5 | Hexagon \<Rightarrow> 6 | Star \<Rightarrow> 5
               | Rhombus \<Rightarrow> 4 | Parallelogram \<Rightarrow> 4 | Trapezoid \<Rightarrow> 4 | _ \<Rightarrow> 0)"

definition polygon_walk :: "ShapeType \<Rightarrow> real \<Rightarrow> real \<Rightarrow> real \<Rightarrow> Point list" where
  "polygon_walk ty radius pcx pcy =
     (let sides = polygon_sides ty;
          ps = map (\<lambda>i. let r = (if ty = Star then (if i mod 2 = 0 then radius else radius / (25 / 10))
                                   else radius);
                            angle = - pi / 2 + (real i / real sides) * 2 * pi
                        in pt (pcx + r * cos angle) (pcy + r * sin angle))
                   [0 ..< sides * (if ty = Star then 2 else 1)]
      in ps @ [hd ps])"

definition createStrokesForShape ::
  "int \<Rightarrow> Point \<Rightarrow> Point \<Rightarrow> ShapeType \<Rightarrow> real \<Rightarrow> string \<Rightarrow> Stroke list" where
  "createStrokesForShape idBase start endPt ty sw col =
     (let x1 = p_x start; y1 = p_y start;
          x2 = p_x endPt; y2 = p_y endPt;
          width = x2 - x1;
          height = y2 - y1;
          cx = x1 + width / 2;
          cy = y1 + height / 2;
          rx = \<bar>width\<bar> / 2;
          ry = \<bar>height\<bar> / 2;
          single = (\<lambda>ps. if ps = [] then [] else [pen_stroke idBase ps sw col])
      in
      if ty = Rectangle then
        single [pt x1 y1, pt x2 y1, pt x2 y2, pt x1 y2, pt x1 y1]
      else if ty = Square then
        (let size = max \<bar>width\<bar> \<bar>height\<bar>;
             finalX2 = x1 + size * js_sign (if width = 0 then 1 else width);
             finalY2 = y1 + size * js_sign (if height = 0 then 1 else height)
         in single [pt x1 y1, pt finalX2 y1, pt finalX2 finalY2, pt x1 finalY2, pt x1 y1])
      else if ty = Circle \<or> ty = Oval then
        (let radiusX = rx;
             radiusY = (if ty = Circle then rx else ry)
         in if radiusX < 1 \<or> radiusY < 1 then []
            else single (ellipse_walk (ellipse_steps radiusX radiusY) cx cy radiusX radiusY))
      else if ty = Line then
        single [pt x1 y1, pt x2 y2]
      else if ty = Arrow then
        (let angle = js_atan2 (y2 - y1) (x2 - x1);
             arrowLength = min 20 (getDistance start endPt / 3);
             p1 = pt x2 y2;
             p2 = pt (x2 - arrowLength * cos (angle - pi / 6)) (y2 - arrowLength * sin (angle - pi / 6));
             p3 = pt (x2 - arrowLength * cos (angle + pi / 6)) (y2 - arrowLength * sin (angle + pi / 6))
         in [pen_stroke idBase [pt x1 y1, pt x2 y2] sw col,
             pen_stroke (idBase + 1) [p2, p1, p3] sw col])
      else if ty = Triangle then
        (let side = getDistance start endPt
         in if side < 2 then []
            else
              (let h = side * sqrt 3 / 2;
                   mx = (x1 + x2) / 2; my = (y1 + y2) / 2;
                   dx = x2 - x1;
                   dy = y2 - y1;
                   p3x = mx - h * (dy / side); p3y = my + h * (dx / side)
               in single [pt x1 y1, pt x2 y2, pt p3x p3y, pt x1 y1]))
      else if ty = RightTriangle then
        single [pt x1 y1, pt x1 y2, pt x2 y2, pt x1 y1]
      else if ty \<in> {Pentagon, Hexagon, Star, Rhombus, Parallelogram, Trapezoid} then
        (let radius = sqrt (rx * rx + ry * ry)
         in if radius < 2 then []
            else if ty = Rhombus then
              single [pt cx y1, pt x2 cy, pt cx y2, pt x1 cy, pt cx y1]
            else if ty = Parallelogram then
              (let offset = rx * (25 / 100)
               in single [pt (x1 + offset) y1, pt (x2 + offset) y1, pt (x2 - offset) y2,
                          pt (x1 - offset) y2, pt (x1 + offset) y1])
            else if ty = Trapezoid then
              (let offset = rx * (25 / 100)
               in single [pt (x1 + offset) y1, pt (x2 - offset) y1, pt x2 y2, pt x1 y2,
                          pt (x1 + offset) y1])
            else single (polygon_walk ty radius cx cy))
      else if ty = Cuboid then
        (if \<bar>width\<bar> < 5 \<or> \<bar>height\<bar> < 5 then []
         else
           (let depthX = width * (4 / 10); depthY = height * - (4 / 10);
                r1 = [pt x1 y1, pt x2 y1, pt x2 y2, pt x1 y2];
                r2 = map (\<lambda>p. pt (p_x p + depthX) (p_y p + depthY)) r1
            in [pen_stroke idBase (r1 @ [r1 ! 0]) sw col,
                pen_stroke (idBase + 1) (r2 @ [r2 ! 0]) sw col,
                pen_stroke (idBase + 2) [r1 ! 0, r2 ! 0] sw col,
                pen_stroke (idBase + 3) [r1 ! 1, r2 ! 1] sw col,
                pen_stroke (idBase + 4) [r1 ! 2, r2 ! 2] sw col,
                pen_stroke (idBase + 5) [r1 ! 3, r2 ! 3] sw col]))
      else if ty = Cone then
        (let radiusX = rx; radiusY = \<bar>height\<bar> * (2 / 10);
             apex = pt cx y1; baseCy = y2 - radiusY
         in if radiusX < 1 \<or> radiusY < 1 then []
            else
              (let basePoints = ellipse_walk (ellipse_steps radiusX radiusY) cx baseCy radiusX radiusY
               in [pen_stroke idBase basePoints sw col,
                   pen_stroke (idBase + 1) [apex, pt (cx - radiusX) baseCy] sw col,
                   pen_stroke (idBase + 2) [apex, pt (cx + radiusX) baseCy] sw col]))
      else if ty = Pyramid then
        (if \<bar>width\<bar> < 5 \<or> \<bar>height\<bar> < 5 then []
         else
           (let apex = pt cx y1;
                base = [pt x1 y2, pt x2 y2, pt (x2 + rx * (3 / 10)) (y2 - ry * (5 / 10)),
                        pt (x1 + rx * (3 / 10)) (y2 - ry * (5 / 10))]
            in [pen_stroke idBase [apex, base ! 0] sw col,
                pen_stroke (idBase + 1) [apex, base ! 1] sw col,
                pen_stroke (idBase + 2) [apex, base ! 3] sw col,
                pen_stroke (idBase + 3) [base ! 0, base ! 1] sw col,
                pen_stroke (idBase + 4) [base ! 0, base ! 3] sw col]))
      else if ty = Cylinder then
        (if rx < 1 \<or> \<bar>height\<bar> < 5 then []
         else
           (let ryEllipse = min ry (rx * (3 / 10));
                steps = ellipse_steps rx ryEllipse;
                topEllipse = ellipse_walk steps cx y1 rx ryEllipse;
                bottomEllipse = ellipse_walk steps cx y2 rx ryEllipse
            in [pen_stroke idBase topEllipse sw col,
                pen_stroke (idBase + 1) bottomEllipse sw col,
                pen_stroke (idBase + 2) [pt x1 (y1 + ryEllipse), pt x1 (y2 + ryEllipse)] sw col,
                pen_stroke (idBase + 3) [pt x2 (y1 + ryEllipse), pt x2 (y2 + ryEllipse)] sw col]))
      else if ty = Sphere then
        (if rx < 2 then []
         else
           (let steps = ellipse_steps rx ry;
                circlePoints = ellipse_walk steps cx cy rx ry;
                hEllipse = ellipse_walk steps cx cy rx (ry * (3 / 10));
                vEllipse = ellipse_walk steps cx cy (rx * (3 / 10)) ry
            in [pen_stroke idBase circlePoints sw col,
                pen_stroke (idBase + 1) hEllipse (sw * (7 / 10)) col,
                pen_stroke (idBase + 2) vEllipse (sw * (7 / 10)) col]))
      else single [])"

section \<open>History manager (hooks/useHistory)\<close>

text \<open>
  The hook keeps the list of snapshots and the cursor. \<^verbatim>\<open>JSON.stringify\<close> is a parameter
  \<open>stringify\<close>: the JSON document of a snapshot, whose text the source compares.
  Every operation is applied to the state of the latest render. The cursor is a valid index in
  every state the hook reaches (\<open>history_ok\<close>, shown below to be an invariant), so the reads
  \<^verbatim>\<open>history[index]\<close> are in range.
\<close>

record 'a History =
  history :: "'a list"
  index :: nat

datatype 'a SetStateAction = Value 'a | Updater "'a \<Rightarrow> 'a"

definition useHistory :: "'a \<Rightarrow> 'a History" where
  "useHistory initialState = \<lparr>history = [initialState], index = 0\<rparr>"

definition present :: "'a History \<Rightarrow> 'a" where
  "present h = history h ! index h"

definition newStateOf :: "'a SetStateAction \<Rightarrow> 'a \<Rightarrow> 'a" where
  "newStateOf action pres = (case action of Updater f \<Rightarrow> f pres | Value v \<Rightarrow> v)"

definition setState :: "('a \<Rightarrow> json) \<Rightarrow> 'a History \<Rightarrow> 'a SetStateAction \<Rightarrow> 'a History" where
  "setState stringify h action =
     (let currentHistory = history h;
          pres = currentHistory ! index h;
          newState = newStateOf action pres
      in if stringify pres = stringify newState then h
         else
           (let newHistory = take (index h + 1) currentHistory @ [newState]
            in \<lparr>history = newHistory, index = length newHistory - 1\<rparr>))"

definition undo :: "'a History \<Rightarrow> 'a History" where
  "undo h = (if index h > 0 then h\<lparr>index := index h - 1\<rparr> else h)"

definition redo :: "'a History \<Rightarrow> 'a History" where
  "redo h = (if int (index h) < int (length (history h)) - 1 then h\<lparr>index := index h + 1\<rparr> else h)"

definition canUndo :: "'a History \<Rightarrow> bool" where
  "canUndo h \<longleftrightarrow> index h > 0"

definition canRedo :: "'a History \<Rightarrow> bool" where
  "canRedo h \<longleftrightarrow> int (index h) < int (length (history h)) - 1"

definition history_ok :: "'a History \<Rightarrow> bool" where
  "history_ok h \<longleftrightarrow> index h < length (history h)"

section \<open>The JSON document of a snapshot\<close>

text \<open>
  \<^verbatim>\<open>JSON.stringify\<close> of the application state, as the JSON document it writes: every
  object with its keys in the order in which the sources build it.
\<close>

definition point_json :: "Point \<Rightarrow> json" where
  "point_json p = JObj [(''x'', JNum (p_x p)), (''y'', JNum (p_y p))]"

definition stroke_json :: "Stroke \<Rightarrow> json" where
  "stroke_json s =
     JObj [(''id'', JNum (of_int (stroke_id s))),
           (''points'', JArr (map point_json (points s))),
           (''tool'', (case stroke_tool s of Pen \<Rightarrow> JStr ''pen'')),
           (''strokeWidth'', JNum (strokeWidth s)),
           (''color'', JStr (color s))]"

definition bounds_json :: "Bounds \<Rightarrow> json" where
  "bounds_json b =
     JObj [(''x'', JNum (b_x b)), (''y'', JNum (b_y b)),
           (''width'', JNum (b_width b)), (''height'', JNum (b_height b))]"

definition text_json :: "RecognizedText \<Rightarrow> json" where
  "text_json t =
     JObj [(''id'', JNum (of_int (text_id t))),
           (''text'', JStr (text_value t)),
           (''bounds'', bounds_json (bounds t)),
           (''fontFamily'', JStr (fontFamily t)),
           (''fontSize'', JNum (fontSize t))]"

definition page_json :: "Page \<Rightarrow> json" where
  "page_json p =
     JObj [(''id'', JNum (of_int (page_id p))),
           (''strokes'', JArr (map stroke_json (strokes p))),
           (''texts'', JArr (map text_json (texts p)))]"

definition backgroundType_json :: "BackgroundType \<Rightarrow> json" where
  "backgroundType_json b =
     (case b of Copybook \<Rightarrow> JStr ''copybook'' | Grid \<Rightarrow> JStr ''grid''
              | Borderline \<Rightarrow> JStr ''borderline'' | Plain \<Rightarrow> JStr ''plain'')"

definition canvasStyle_json :: "CanvasStyle \<Rightarrow> json" where
  "canvasStyle_json c =
     JObj [(''backgroundColor'', JStr (backgroundColor c)),
           (''fontFamily'', JStr (cs_fontFamily c)),
           (''fontSize'', JNum (cs_fontSize c)),
           (''backgroundType'', backgroundType_json (backgroundType c))]"

definition shapeType_json :: "ShapeType \<Rightarrow> json" where
  "shapeType_json ty =
     (case ty of
        Rectangle \<Rightarrow> JStr ''rectangle'' | Square \<Rightarrow> JStr ''square'' | Circle \<Rightarrow> JStr ''circle''
      | Oval \<Rightarrow> JStr ''oval'' | Line \<Rightarrow> JStr ''line'' | Arrow \<Rightarrow> JStr ''arrow''
      | Triangle \<Rightarrow> JStr ''triangle'' | RightTriangle \<Rightarrow> JStr ''rightTriangle''
      | Rhombus \<Rightarrow> JStr ''rhombus'' | Parallelogram \<Rightarrow> JStr ''parallelogram''
      | Trapezoid \<Rightarrow> JStr ''trapezoid'' | Pentagon \<Rightarrow> JStr ''pentagon''
      | Hexagon \<Rightarrow> JStr ''hexagon'' | Star \<Rightarrow> JStr ''star'' | Cuboid \<Rightarrow> JStr ''cuboid''
      | Cone \<Rightarrow> JStr ''cone'' | Pyramid \<Rightarrow> JStr ''pyramid'' | Cylinder \<Rightarrow> JStr ''cylinder''
      | Sphere \<Rightarrow> JStr ''sphere'')"

definition toolSettings_json :: "ToolSettings \<Rightarrow> json" where
  "toolSettings_json t =
     JObj [(''pen'', JObj [(''size'', JNum (pen_size (pen t))), (''color'', JStr (pen_color (pen t)))]),
           (''eraser'', JObj [(''size'', JNum (eraser_size (eraser t)))]),
           (''shape'', JObj [(''type'', shapeType_json (shape_type (shape t))),
                             (''size'', JNum (shape_size (shape t))),
                             (''color'', JStr (shape_color (shape t)))])]"

definition answerLength_json :: "AnswerLength \<Rightarrow> json" where
  "answerLength_json a =
     (case a of Compact \<Rightarrow> JStr ''compact'' | Medium \<Rightarrow> JStr ''medium'' | Detailed \<Rightarrow> JStr ''detailed'')"

definition appState_json :: "AppState \<Rightarrow> json" where
  "appState_json s =
     JObj [(''pages'', JArr (map page_json (pages s))),
           (''currentPageIndex'', JNum (real (currentPageIndex s))),
           (''canvasStyle'', canvasStyle_json (canvasStyle s)),
           (''isGlobalStyleEnabled'', JBool (isGlobalStyleEnabled s)),
           (''isSpellingCorrectionEnabled'', JBool (isSpellingCorrectionEnabled s)),
           (''toolSettings'', toolSettings_json (toolSettings s)),
           (''answerLength'', answerLength_json (answerLength s))]"

section \<open>Editor and canvas state (EditorView.tsx, Canvas.tsx)\<close>

text \<open>
  The state of the editor view and of the canvas it renders, in one record: the history of
  snapshots, the view transform, the loading flag and error message, the pending
  \<^verbatim>\<open>setTimeout\<close> delays that clear the message, and the refs and local state of the canvas.
  \<open>pointers\<close> is the JavaScript \<^verbatim>\<open>Map\<close> from pointer id to client position, in insertion
  order.
\<close>

record DOMRect =
  rect_left :: real
  rect_top :: real

record Env =
  canvasRect :: "DOMRect option"
  devicePixelRatio :: real

record PointerEvent =
  pointerId :: nat
  clientX :: real
  clientY :: real
  movementX :: real
  movementY :: real
  isMouse :: bool
  button :: int

record WheelEvent =
  wheel_clientX :: real
  wheel_clientY :: real
  deltaY :: real

record Gesture =
  g_dist :: real
  g_mid :: Point

record DraggedItem =
  drag_id :: int
  initialBounds :: Bounds
  startPoint :: Point

record DrawingShape =
  shape_start :: Point
  shape_end :: Point

record App =
  hist :: "AppState History"
  viewTransform :: ViewTransform
  isLoading :: bool
  error :: "string option"
  errorTimers :: "nat list"
  recognitionTrigger :: nat
  pointers :: "(nat \<times> Point) list"
  lastGesture :: "Gesture option"
  isDrawing :: bool
  currentStrokePoints :: "Point list"
  latestPointerPosition :: Point
  draggedItem :: "DraggedItem option"
  isHoveringText :: bool
  selectionRect :: "Bounds option"
  selectionStartPoint :: "Point option"
  drawingShape :: "DrawingShape option"

definition initialApp :: "AppState \<Rightarrow> App" where
  "initialApp instanceState =
     \<lparr>hist = useHistory instanceState,
      viewTransform = \<lparr>scale = 1, offsetX = 0, offsetY = 0\<rparr>,
      isLoading = False, error = None, errorTimers = [], recognitionTrigger = 0,
      pointers = [], lastGesture = None, isDrawing = False, currentStrokePoints = [],
      latestPointerPosition = pt 0 0, draggedItem = None, isHoveringText = False,
      selectionRect = None, selectionStartPoint = None, drawingShape = None\<rparr>"

text \<open>\<^verbatim>\<open>Map.set\<close>, \<^verbatim>\<open>Map.delete\<close>, \<^verbatim>\<open>Map.has\<close> and \<^verbatim>\<open>Array.from(new Set(..))\<close>.\<close>

definition map_has :: "nat \<Rightarrow> (nat \<times> Point) list \<Rightarrow> bool" where
  "map_has k m \<longleftrightarrow> k \<in> fst ` set m"

definition map_set :: "nat \<Rightarrow> Point \<Rightarrow> (nat \<times> Point) list \<Rightarrow> (nat \<times> Point) list" where
  "map_set k v m =
     (if map_has k m then map (\<lambda>kv. if fst kv = k then (k, v) else kv) m else m @ [(k, v)])"

definition map_delete :: "nat \<Rightarrow> (nat \<times> Point) list \<Rightarrow> (nat \<times> Point) list" where
  "map_delete k m = filter (\<lambda>kv. fst kv \<noteq> k) m"

definition set_to_array :: "int list \<Rightarrow> int list" where
  "set_to_array xs = rev (remdups (rev xs))"

definition dpr_of :: "Env \<Rightarrow> real" where
  "dpr_of env = (if devicePixelRatio env = 0 then 1 else devicePixelRatio env)"

definition state_of :: "App \<Rightarrow> AppState" where
  "state_of app = present (hist app)"

text \<open>
  \<^verbatim>\<open>pages[currentPageIndex]\<close>: the editor view reads it in every render, so the index is in
  range (\<open>page_ok\<close>) in every state in which a handler of the canvas can run.
\<close>

definition currentPage :: "App \<Rightarrow> Page" where
  "currentPage app = pages (state_of app) ! currentPageIndex (state_of app)"

definition page_ok :: "App \<Rightarrow> bool" where
  "page_ok app \<longleftrightarrow> history_ok (hist app) \<and> currentPageIndex (state_of app) < length (pages (state_of app))"

text \<open>The same for every snapshot of a history: an invariant of the runs of the canvas.\<close>

definition state_ok :: "AppState \<Rightarrow> bool" where
  "state_ok st \<longleftrightarrow> currentPageIndex st < length (pages st)"

definition snapshots_ok :: "AppState History \<Rightarrow> bool" where
  "snapshots_ok h \<longleftrightarrow> history_ok h \<and> list_all state_ok (history h)"

definition updateCurrentPage :: "(Page \<Rightarrow> Page) \<Rightarrow> App \<Rightarrow> App" where
  "updateCurrentPage updater app =
     app\<lparr>hist := setState appState_json (hist app)
       (Updater (\<lambda>currentState.
          currentState\<lparr>pages := (pages currentState)
            [currentPageIndex currentState :=
               updater (pages currentState ! currentPageIndex currentState)]\<rparr>))\<rparr>"

definition handleSetStrokes :: "(Stroke list \<Rightarrow> Stroke list) \<Rightarrow> App \<Rightarrow> App" where
  "handleSetStrokes updater app =
     updateCurrentPage (\<lambda>page. page\<lparr>strokes := updater (strokes page)\<rparr>) app"

definition handleTextUpdate :: "int \<Rightarrow> Bounds \<Rightarrow> App \<Rightarrow> App" where
  "handleTextUpdate textId newBounds app =
     updateCurrentPage (\<lambda>page. page\<lparr>texts :=
        map (\<lambda>t. if text_id t = textId then t\<lparr>bounds := newBounds\<rparr> else t) (texts page)\<rparr>) app"

definition handleItemsDelete :: "int list \<Rightarrow> int list \<Rightarrow> App \<Rightarrow> App" where
  "handleItemsDelete strokeIds textIds app =
     (if strokeIds = [] \<and> textIds = [] then app
      else updateCurrentPage (\<lambda>page. page
             \<lparr>strokes := filter (\<lambda>s. stroke_id s \<notin> set strokeIds) (strokes page),
              texts := filter (\<lambda>t. text_id t \<notin> set textIds) (texts page)\<rparr>) app)"

section \<open>Viewport transform (Canvas.tsx)\<close>

text \<open>
  The definitions of this section compute with exact real numbers. The results that rest on
  them compare computed values or bound the scale; the rounding of the source's
  double-precision operations is modelled separately, in the next section, for the result
  that depends on it.
\<close>

definition getPointInWorldSpace :: "Env \<Rightarrow> ViewTransform \<Rightarrow> real \<Rightarrow> real \<Rightarrow> Point" where
  "getPointInWorldSpace env vt cX cY =
     (case canvasRect env of
        None \<Rightarrow> pt 0 0
      | Some rect \<Rightarrow>
          (let dpr = dpr_of env;
               cssX = cX - rect_left rect;
               cssY = cY - rect_top rect;
               physicalX = cssX * dpr;
               physicalY = cssY * dpr;
               worldX = (physicalX - offsetX vt) / scale vt;
               worldY = (physicalY - offsetY vt) / scale vt
           in pt worldX worldY))"

text \<open>The body of \<^verbatim>\<open>handleWheel\<close> once the canvas is known to exist.\<close>

definition wheelZoom :: "DOMRect \<Rightarrow> real \<Rightarrow> WheelEvent \<Rightarrow> ViewTransform \<Rightarrow> ViewTransform" where
  "wheelZoom rect dpr e vt =
     (let physicalX = (wheel_clientX e - rect_left rect) * dpr;
          physicalY = (wheel_clientY e - rect_top rect) * dpr;
          scroll = deltaY e * - (5 / 1000);
          newScale = min (max (scale vt * (1 + scroll)) MIN_ZOOM) MAX_ZOOM;
          zoomFactor = newScale / scale vt;
          newOffsetX = physicalX - (physicalX - offsetX vt) * zoomFactor;
          newOffsetY = physicalY - (physicalY - offsetY vt) * zoomFactor
      in \<lparr>scale = newScale, offsetX = newOffsetX, offsetY = newOffsetY\<rparr>)"

definition handleWheel :: "Env \<Rightarrow> WheelEvent \<Rightarrow> App \<Rightarrow> App" where
  "handleWheel env e app =
     (case canvasRect env of
        None \<Rightarrow> app
      | Some rect \<Rightarrow> app\<lparr>viewTransform := wheelZoom rect (dpr_of env) e (viewTransform app)\<rparr>)"

text \<open>
  The two-contact branch of \<^verbatim>\<open>handlePointerMove\<close>: zoom about the midpoint, then pan by the
  movement of the midpoint. \<open>p1\<close> and \<open>p2\<close> are the two client positions, \<open>g\<close> the previous
  distance and midpoint.

  The new scale is \<^verbatim>\<open>Math.min(Math.max(scale * (currentDist / lastDist), MIN_ZOOM), MAX_ZOOM)\<close>.
  When the previous distance is zero the quotient is not a real number. JavaScript gives
  \<^verbatim>\<open>NaN\<close> for 0/0, and \<^verbatim>\<open>Math.max\<close> and \<^verbatim>\<open>Math.min\<close> return \<^verbatim>\<open>NaN\<close> when an argument is
  \<^verbatim>\<open>NaN\<close>: the new scale is \<^verbatim>\<open>NaN\<close>, written \<open>None\<close>. For a quotient of plus or minus
  \<^verbatim>\<open>Infinity\<close> the product with the scale is infinite with the sign of the product (\<^verbatim>\<open>NaN\<close>
  when the scale is zero), and the clamp gives \<open>MAX_ZOOM\<close> or \<open>MIN_ZOOM\<close>.
\<close>

definition pinchScale :: "real \<Rightarrow> real \<Rightarrow> real \<Rightarrow> real option" where
  "pinchScale s currentDist lastDist =
     (if lastDist \<noteq> 0 then Some (min (max (s * (currentDist / lastDist)) MIN_ZOOM) MAX_ZOOM)
      else if currentDist = 0 \<or> s = 0 then None
      else if (0 < currentDist) = (0 < s) then Some MAX_ZOOM
      else Some MIN_ZOOM)"

definition pinchZoom ::
  "DOMRect \<Rightarrow> real \<Rightarrow> Point \<Rightarrow> Point \<Rightarrow> Gesture \<Rightarrow> ViewTransform \<Rightarrow> ViewTransform option" where
  "pinchZoom rect dpr p1 p2 g vt =
     (let currentDist = getDistance p1 p2;
          currentMid = getMidpoint p1 p2
      in case pinchScale (scale vt) currentDist (g_dist g) of
           None \<Rightarrow> None
         | Some newScale \<Rightarrow>
             (let physicalX = (p_x currentMid - rect_left rect) * dpr;
                  physicalY = (p_y currentMid - rect_top rect) * dpr;
                  newOffsetX = physicalX - (physicalX - offsetX vt) * (newScale / scale vt);
                  newOffsetY = physicalY - (physicalY - offsetY vt) * (newScale / scale vt);
                  panDX = (p_x currentMid - p_x (g_mid g)) * dpr;
                  panDY = (p_y currentMid - p_y (g_mid g)) * dpr
              in Some \<lparr>scale = newScale, offsetX = newOffsetX + panDX,
                        offsetY = newOffsetY + panDY\<rparr>))"

text \<open>The single-contact hand branch of \<^verbatim>\<open>handlePointerMove\<close>: pan by the pointer's movement.\<close>

definition panBy :: "real \<Rightarrow> Point \<Rightarrow> PointerEvent \<Rightarrow> ViewTransform \<Rightarrow> ViewTransform" where
  "panBy dpr p e prev =
     (let lastP = pt (clientX e - movementX e) (clientY e - movementY e);
          dx = (p_x p - p_x lastP) * dpr;
          dy = (p_y p - p_y lastP) * dpr
      in prev\<lparr>offsetX := offsetX prev + dx, offsetY := offsetY prev + dy\<rparr>)"

section \<open>Double-precision arithmetic (Canvas.tsx, lines 219-228 and 600-608)\<close>

text \<open>
  A JavaScript number is an IEEE 754 binary64 value, and every \<^verbatim>\<open>-\<close>, \<^verbatim>\<open>*\<close> and \<^verbatim>\<open>/\<close> of the
  source returns the exact result rounded to the nearest such value, ties to the even
  significand. The definitions of the previous section compute with exact reals. For the
  lines that map a device point to world space and that recompute the offset in a zoom,
  where an equality between two computed numbers is at stake, the rounding is modelled here.

  A finite double is an integer multiple of the unit in its last place: \<open>2 ^ (e - 52)\<close> where
  \<open>e\<close> is the binary exponent of the number, and \<open>2 ^ (- 1074)\<close> for the subnormal numbers.
  \<open>round_double x\<close> is the multiple nearest to \<open>x\<close>. \<open>fl x\<close> is the result of an operation
  whose exact value is \<open>x\<close>: \<open>None\<close> when the rounded value is beyond the largest finite
  double, where JavaScript returns an infinity.
\<close>

definition round_half_even :: "real \<Rightarrow> int" where
  "round_half_even q =
     (let f = \<lfloor>q\<rfloor>
      in if q - of_int f < 1 / 2 then f
         else if q - of_int f > 1 / 2 then f + 1
         else if even f then f else f + 1)"

definition double_exponent :: "real \<Rightarrow> int" where
  "double_exponent x = max \<lfloor>log 2 \<bar>x\<bar>\<rfloor> (- 1022)"

definition double_ulp :: "real \<Rightarrow> real" where
  "double_ulp x = 2 powr of_int (double_exponent x - 52)"

definition round_double :: "real \<Rightarrow> real" where
  "round_double x =
     (if x = 0 then 0 else of_int (round_half_even (x / double_ulp x)) * double_ulp x)"

definition fl :: "real \<Rightarrow> real option" where
  "fl x = (let r = round_double x in if \<bar>r\<bar> < 2 ^ 1024 then Some r else None)"

definition d_sub :: "real \<Rightarrow> real \<Rightarrow> real option" where
  "d_sub a b = fl (a - b)"

definition d_mul :: "real \<Rightarrow> real \<Rightarrow> real option" where
  "d_mul a b = fl (a * b)"

text \<open>A division by zero gives \<^verbatim>\<open>NaN\<close> or an infinity: no finite double.\<close>

definition d_div :: "real \<Rightarrow> real \<Rightarrow> real option" where
  "d_div a b = (if b = 0 then None else fl (a / b))"

text \<open>
  The handlers treat the two coordinates alike: the x coordinate from \<^verbatim>\<open>clientX\<close>,
  \<^verbatim>\<open>rect.left\<close> and \<^verbatim>\<open>offsetX\<close>, the y coordinate from \<^verbatim>\<open>clientY\<close>, \<^verbatim>\<open>rect.top\<close> and
  \<^verbatim>\<open>offsetY\<close>. Each function below is the computation of one coordinate.

  \<^verbatim>\<open>physicalX = (e.clientX - rect.left) * dpr\<close> (lines 221-224 and 602):
\<close>

definition physical_double :: "real \<Rightarrow> real \<Rightarrow> real \<Rightarrow> real option" where
  "physical_double client origin dpr =
     Option.bind (d_sub client origin) (\<lambda>css. d_mul css dpr)"

text \<open>
  \<^verbatim>\<open>worldX = (physicalX - viewTransform.offsetX) / viewTransform.scale\<close> (line 227 of
  \<^verbatim>\<open>getPointInWorldSpace\<close>):
\<close>

definition toWorld_double :: "real \<Rightarrow> real \<Rightarrow> real \<Rightarrow> real option" where
  "toWorld_double physical offset s =
     Option.bind (d_sub physical offset) (\<lambda>a. d_div a s)"

text \<open>
  \<^verbatim>\<open>zoomFactor = newScale / viewTransform.scale\<close> and
  \<^verbatim>\<open>newOffsetX = physicalX - (physicalX - viewTransform.offsetX) * zoomFactor\<close> (lines 605-606
  of \<^verbatim>\<open>handleWheel\<close>):
\<close>

definition zoomOffset_double :: "real \<Rightarrow> real \<Rightarrow> real \<Rightarrow> real \<Rightarrow> real option" where
  "zoomOffset_double physical offset s newScale =
     Option.bind (d_div newScale s) (\<lambda>zoomFactor.
     Option.bind (d_sub physical offset) (\<lambda>a.
     Option.bind (d_mul a zoomFactor) (\<lambda>t.
       d_sub physical t)))"

section \<open>Hit-testing and the eraser (Canvas.tsx, lines 399-420)\<close>

definition eraserRadius :: "App \<Rightarrow> real" where
  "eraserRadius app = eraser_size (eraser (toolSettings (state_of app))) / 2"

definition strokeHit :: "real \<Rightarrow> Point \<Rightarrow> Stroke \<Rightarrow> bool" where
  "strokeHit radius point stroke \<longleftrightarrow>
     (let halfWidth = strokeWidth stroke / 2
      in list_ex (\<lambda>p. getDistance p point < radius + halfWidth) (points stroke))"

definition textHit :: "real \<Rightarrow> Point \<Rightarrow> RecognizedText \<Rightarrow> bool" where
  "textHit radius point t \<longleftrightarrow>
     (let bx = b_x (bounds t); by = b_y (bounds t);
          width = b_width (bounds t); height = b_height (bounds t)
      in p_x point > bx - radius \<and> p_x point < bx + width + radius \<and>
         p_y point > by - radius \<and> p_y point < by + height + radius)"

definition eraseAtPoint :: "Point \<Rightarrow> App \<Rightarrow> App" where
  "eraseAtPoint point app =
     (let radius = eraserRadius app;
          strokeIdsToDelete =
            set_to_array (map stroke_id (filter (strokeHit radius point) (strokes (currentPage app))));
          textIdsToDelete =
            set_to_array (map text_id (filter (textHit radius point) (texts (currentPage app))))
      in if length strokeIdsToDelete > 0 \<or> length textIdsToDelete > 0
         then handleItemsDelete strokeIdsToDelete textIdsToDelete app
         else app)"

section \<open>Pointer handlers (Canvas.tsx, lines 422-561 and 645-649)\<close>

text \<open>
  Each handler takes the environment (the canvas rectangle, absent when the canvas ref is null,
  and the device pixel ratio), the current tool, the event, and the state; \<open>now\<close> is the value
  of \<^verbatim>\<open>Date.now()\<close>. A handler that returns early returns the state as updated so far.

  The numbers of a state are finite reals. The move handler can store \<^verbatim>\<open>NaN\<close> in the view
  transform (the pinch branch, above); every later zoom keeps it \<^verbatim>\<open>NaN\<close>. Such a handler
  returns the fault \<open>NotANumber\<close> in place of a state, and a run ends there.
\<close>

datatype Fault = NotANumber

definition handlePointerDown :: "Env \<Rightarrow> Tool \<Rightarrow> PointerEvent \<Rightarrow> App \<Rightarrow> App" where
  "handlePointerDown env tool e app =
     (if isMouse e \<and> button e \<noteq> 0 then app
      else
        (let ptrs = map_set (pointerId e) (pt (clientX e) (clientY e)) (pointers app);
             point = getPointInWorldSpace env (viewTransform app) (clientX e) (clientY e);
             app1 = app\<lparr>pointers := ptrs, latestPointerPosition := point\<rparr>;
             textToDrag = find (\<lambda>t. pointInBounds point (bounds t)) (rev (texts (currentPage app)))
         in if length ptrs = 1 \<and> tool = ToolHand \<and> textToDrag \<noteq> None then
              app1\<lparr>selectionRect := None,
                   draggedItem := Some \<lparr>drag_id = text_id (the textToDrag),
                                         initialBounds = bounds (the textToDrag),
                                         startPoint = point\<rparr>\<rparr>
            else
              (let app2 =
                     (if length ptrs = 1 then
                        (let app1' = app1\<lparr>selectionRect := None\<rparr>
                         in if tool = ToolPen then
                              app1'\<lparr>isDrawing := True, currentStrokePoints := [point]\<rparr>
                            else if tool = ToolEraser then eraseAtPoint point app1'
                            else if tool = ToolSelect then app1'\<lparr>selectionStartPoint := Some point\<rparr>
                            else if tool = ToolShape then
                              app1'\<lparr>isDrawing := True,
                                    drawingShape := Some \<lparr>shape_start = point, shape_end = point\<rparr>\<rparr>
                            else app1')
                      else app1)
               in if length ptrs = 2 then
                    (let p1 = snd (ptrs ! 0); p2 = snd (ptrs ! 1)
                     in app2\<lparr>lastGesture := Some \<lparr>g_dist = getDistance p1 p2, g_mid = getMidpoint p1 p2\<rparr>\<rparr>)
                  else app2)))"

definition handlePointerMove :: "Env \<Rightarrow> Tool \<Rightarrow> PointerEvent \<Rightarrow> App \<Rightarrow> Fault + App" where
  "handlePointerMove env tool e app =
     (let point = getPointInWorldSpace env (viewTransform app) (clientX e) (clientY e);
          app0 = app\<lparr>latestPointerPosition := point\<rparr>
      in if \<not> map_has (pointerId e) (pointers app) then Inr app0
         else
           (let ptrs = map_set (pointerId e) (pt (clientX e) (clientY e)) (pointers app);
                app1 = app0\<lparr>pointers := ptrs\<rparr>
            in if draggedItem app \<noteq> None then Inr app1
               else if length ptrs = 1 then
                 (let app2 =
                        (if \<not> isDrawing app \<and> tool = ToolHand then
                           app1\<lparr>isHoveringText :=
                                  list_ex (\<lambda>t. pointInBounds point (bounds t)) (texts (currentPage app))\<rparr>
                         else if isHoveringText app then app1\<lparr>isHoveringText := False\<rparr>
                         else app1)
                  in if isDrawing app \<and> tool = ToolPen then
                       Inr (app2\<lparr>currentStrokePoints := currentStrokePoints app @ [point]\<rparr>)
                     else if isDrawing app \<and> tool = ToolShape then
                       Inr (app2\<lparr>drawingShape :=
                                  map_option (\<lambda>prev. prev\<lparr>shape_end := point\<rparr>) (drawingShape app)\<rparr>)
                     else if tool = ToolEraser then Inr (eraseAtPoint point app2)
                     else if tool = ToolHand \<and> draggedItem app = None then
                       Inr (app2\<lparr>viewTransform :=
                                  panBy (dpr_of env) (snd (ptrs ! 0)) e (viewTransform app)\<rparr>)
                     else if tool = ToolSelect \<and> selectionStartPoint app \<noteq> None then
                       (let start = the (selectionStartPoint app);
                            rx = min (p_x start) (p_x point); ry = min (p_y start) (p_y point);
                            width = \<bar>p_x start - p_x point\<bar>; height = \<bar>p_y start - p_y point\<bar>
                        in Inr (app2\<lparr>selectionRect :=
                                  Some \<lparr>b_x = rx, b_y = ry, b_width = width, b_height = height\<rparr>\<rparr>))
                     else Inr app2)
               else if length ptrs = 2 \<and> lastGesture app \<noteq> None then
                 (let p1 = snd (ptrs ! 0); p2 = snd (ptrs ! 1)
                  in case canvasRect env of
                       None \<Rightarrow> Inr app1
                     | Some rect \<Rightarrow>
                         (case pinchZoom rect (dpr_of env) p1 p2 (the (lastGesture app))
                                 (viewTransform app) of
                            None \<Rightarrow> Inl NotANumber
                          | Some newTransform \<Rightarrow>
                              Inr (app1\<lparr>viewTransform := newTransform,
                                        lastGesture :=
                                          Some \<lparr>g_dist = getDistance p1 p2,
                                                g_mid = getMidpoint p1 p2\<rparr>\<rparr>)))
               else Inr app1))"

definition snapToLine :: "BackgroundType \<Rightarrow> real \<Rightarrow> Bounds \<Rightarrow> Bounds" where
  "snapToLine bg fSize newBounds =
     (if bg = Copybook then
        (let lineSpacing = 80;
             newBaselineY = b_y newBounds + fSize;
             nearestLineY = js_round (newBaselineY / lineSpacing) * lineSpacing
         in newBounds\<lparr>b_y := nearestLineY - fSize\<rparr>)
      else newBounds)"

definition handlePointerUp :: "Env \<Rightarrow> Tool \<Rightarrow> int \<Rightarrow> PointerEvent \<Rightarrow> App \<Rightarrow> App" where
  "handlePointerUp env tool now e app =
     (let app1 = app\<lparr>pointers := map_delete (pointerId e) (pointers app),
                     lastGesture := None, isDrawing := False\<rparr>;
          app2 =
            (case draggedItem app of
               None \<Rightarrow> app1
             | Some item \<Rightarrow>
                 (case find (\<lambda>t. text_id t = drag_id item) (texts (currentPage app)) of
                    None \<Rightarrow> app1\<lparr>draggedItem := None\<rparr>
                  | Some t \<Rightarrow>
                      (let currentPoint = getPointInWorldSpace env (viewTransform app) (clientX e) (clientY e);
                           dx = p_x currentPoint - p_x (startPoint item);
                           dy = p_y currentPoint - p_y (startPoint item);
                           newBounds = (initialBounds item)
                             \<lparr>b_x := b_x (initialBounds item) + dx, b_y := b_y (initialBounds item) + dy\<rparr>;
                           newBounds' = snapToLine (backgroundType (canvasStyle (state_of app))) (fontSize t) newBounds
                       in (handleTextUpdate (drag_id item) newBounds' app1)\<lparr>draggedItem := None\<rparr>)));
          app3 =
            (if tool = ToolPen \<and> length (currentStrokePoints app) > 1 then
               (let newStroke = pen_stroke now (currentStrokePoints app)
                                  (pen_size (pen (toolSettings (state_of app))))
                                  (pen_color (pen (toolSettings (state_of app))))
                in handleSetStrokes (\<lambda>prev. prev @ [newStroke]) app2)
             else app2);
          app4 = app3\<lparr>currentStrokePoints := []\<rparr>;
          app5 =
            (if tool = ToolShape \<and> drawingShape app \<noteq> None then
               (let ds = the (drawingShape app);
                    sh = shape (toolSettings (state_of app));
                    newStrokes = createStrokesForShape now (shape_start ds) (shape_end ds)
                                   (shape_type sh) (shape_size sh) (shape_color sh)
                in (if length newStrokes > 0 then handleSetStrokes (\<lambda>prev. prev @ newStrokes) app4
                    else app4)\<lparr>drawingShape := None\<rparr>)
             else app4)
      in if tool = ToolSelect then
           (let app6 = app5\<lparr>selectionStartPoint := None\<rparr>
            in case selectionRect app of
                 None \<Rightarrow> app6
               | Some r \<Rightarrow> if b_width r < 10 \<or> b_height r < 10 then app6\<lparr>selectionRect := None\<rparr> else app6)
         else app5)"

definition handlePointerLeave :: "Env \<Rightarrow> Tool \<Rightarrow> int \<Rightarrow> PointerEvent \<Rightarrow> App \<Rightarrow> App" where
  "handlePointerLeave env tool now e app =
     (let app1 = app\<lparr>pointers := map_delete (pointerId e) (pointers app)\<rparr>;
          app2 = (if isDrawing app then handlePointerUp env tool now e app1 else app1)
      in app2\<lparr>isHoveringText := False\<rparr>)"

section \<open>Editor commands (EditorView.tsx)\<close>

definition handleResetSettings :: "App \<Rightarrow> App" where
  "handleResetSettings app =
     (let initialCanvasStyle =
            \<lparr>backgroundColor = ''#fef3c7'', cs_fontFamily = ''Caveat'', cs_fontSize = 48,
             backgroundType = Copybook\<rparr>;
          initialToolSettings =
            \<lparr>pen = \<lparr>pen_size = 5, pen_color = ''#333333''\<rparr>, eraser = \<lparr>eraser_size = 20\<rparr>,
             shape = \<lparr>shape_type = Rectangle, shape_size = 5, shape_color = ''#333333''\<rparr>\<rparr>
      in app\<lparr>hist := setState appState_json (hist app)
                (Updater (\<lambda>currentState. currentState
                   \<lparr>canvasStyle := initialCanvasStyle,
                    toolSettings := initialToolSettings,
                    isGlobalStyleEnabled := False,
                    isSpellingCorrectionEnabled := False,
                    answerLength := Compact\<rparr>)),
              viewTransform := \<lparr>scale = 1, offsetX = 0, offsetY = 0\<rparr>\<rparr>)"

definition handleUndo :: "App \<Rightarrow> App" where
  "handleUndo app = app\<lparr>hist := undo (hist app)\<rparr>"

definition handleRedo :: "App \<Rightarrow> App" where
  "handleRedo app = app\<lparr>hist := redo (hist app)\<rparr>"

subsection \<open>Handwriting recognition (EditorView.tsx, lines 191-223)\<close>

text \<open>
  \<^verbatim>\<open>handleRecognize\<close> awaits the recognition service. The model has one step up to the
  \<^verbatim>\<open>await\<close>, which records what the closure captured, and one step for the settled promise,
  which may run in any later state. The service is outside the program: its outcome is a
  parameter, \<open>Rejected\<close> when the call throws.
\<close>

datatype Language = English | Nepali

datatype Settled = Fulfilled string | Rejected string

record RecognizeRequest =
  req_base64Data :: "string option"
  req_language :: Language
  req_spelling :: bool
  req_canvasStyle :: CanvasStyle
  req_bounds :: Bounds

fun js_split :: "char \<Rightarrow> string \<Rightarrow> string list" where
  "js_split c [] = [[]]"
| "js_split c (ch # rest) =
     (if ch = c then [] # js_split c rest
      else (case js_split c rest of w # ws \<Rightarrow> (ch # w) # ws | [] \<Rightarrow> [[ch]]))"

definition handleRecognize_begin ::
  "Language \<Rightarrow> string \<Rightarrow> Bounds \<Rightarrow> App \<Rightarrow> App \<times> RecognizeRequest option" where
  "handleRecognize_begin language imageData bnds app =
     (if isLoading app then (app, None)
      else
        (let parts = js_split CHR '','' imageData;
             base64Data = (if length parts > 1 then Some (parts ! 1) else None)
         in (app\<lparr>isLoading := True, error := None\<rparr>,
             Some \<lparr>req_base64Data = base64Data, req_language = language,
                   req_spelling = isSpellingCorrectionEnabled (state_of app),
                   req_canvasStyle = canvasStyle (state_of app),
                   req_bounds = bnds\<rparr>)))"

definition handleRecognize_settle :: "int \<Rightarrow> RecognizeRequest \<Rightarrow> Settled \<Rightarrow> App \<Rightarrow> App" where
  "handleRecognize_settle now req outcome app =
     (case outcome of
        Fulfilled result \<Rightarrow>
          updateCurrentPage (\<lambda>page.
            (let fFamily = cs_fontFamily (req_canvasStyle req);
                 fSize = cs_fontSize (req_canvasStyle req);
                 finalBounds = snapToLine (backgroundType (req_canvasStyle req)) fSize (req_bounds req);
                 newText = \<lparr>text_id = now, text_value = result, bounds = finalBounds,
                            fontFamily = fFamily, fontSize = fSize\<rparr>
             in page\<lparr>strokes := [], texts := texts page @ [newText]\<rparr>)) app
      | Rejected err \<Rightarrow>
          app\<lparr>error := Some ''Failed to recognize handwriting. Please try again.'',
               errorTimers := errorTimers app @ [5000]\<rparr>)
     \<lparr>isLoading := False\<rparr>"

text \<open>The callback of \<^verbatim>\<open>setTimeout(() => setError(null), 5000)\<close>.\<close>

definition errorTimerFired :: "App \<Rightarrow> App" where
  "errorTimerFired app = app\<lparr>error := None, errorTimers := tl (errorTimers app)\<rparr>"

section \<open>Runs of the canvas\<close>

datatype Event =
    EvPointerDown Env Tool PointerEvent
  | EvPointerMove Env Tool PointerEvent
  | EvPointerUp Env Tool int PointerEvent
  | EvPointerLeave Env Tool int PointerEvent
  | EvWheel Env WheelEvent
  | EvResetSettings
  | EvUndo
  | EvRedo

fun dispatch :: "App \<Rightarrow> Event \<Rightarrow> Fault + App" where
  "dispatch app (EvPointerDown env tool e) = Inr (handlePointerDown env tool e app)"
| "dispatch app (EvPointerMove env tool e) = handlePointerMove env tool e app"
| "dispatch app (EvPointerUp env tool now e) = Inr (handlePointerUp env tool now e app)"
| "dispatch app (EvPointerLeave env tool now e) = Inr (handlePointerLeave env tool now e app)"
| "dispatch app (EvWheel env e) = Inr (handleWheel env e app)"
| "dispatch app EvResetSettings = Inr (handleResetSettings app)"
| "dispatch app EvUndo = Inr (handleUndo app)"
| "dispatch app EvRedo = Inr (handleRedo app)"

fun run :: "App \<Rightarrow> Event list \<Rightarrow> Fault + App" where
  "run app [] = Inr app"
| "run app (ev # evs) = (case dispatch app ev of Inl fault \<Rightarrow> Inl fault | Inr app' \<Rightarrow> run app' evs)"

definition zoom_in_range :: "ViewTransform \<Rightarrow> bool" where
  "zoom_in_range vt \<longleftrightarrow> MIN_ZOOM \<le> scale vt \<and> scale vt \<le> MAX_ZOOM"

section \<open>Initial and example states\<close>

text \<open>The double nearest to 0.1, the value of the literal \<^verbatim>\<open>0.1\<close>.\<close>

definition X01 :: real where
  "X01 = 3602879701896397 / 36028797018963968"

text \<open>\<^verbatim>\<open>createInitialState\<close> of App.tsx; \<open>now\<close> is the value of \<^verbatim>\<open>Date.now()\<close>.\<close>

definition createInitialState :: "int \<Rightarrow> AppState" where
  "createInitialState now =
     \<lparr>pages = [\<lparr>page_id = now, strokes = [], texts = []\<rparr>],
      currentPageIndex = 0,
      canvasStyle = \<lparr>backgroundColor = ''#fef3c7'', cs_fontFamily = ''Caveat'', cs_fontSize = 48,
                     backgroundType = Copybook\<rparr>,
      isGlobalStyleEnabled = False,
      isSpellingCorrectionEnabled = False,
      toolSettings = \<lparr>pen = \<lparr>pen_size = 5, pen_color = ''#333333''\<rparr>,
                      eraser = \<lparr>eraser_size = 20\<rparr>,
                      shape = \<lparr>shape_type = Rectangle, shape_size = 5, shape_color = ''#333333''\<rparr>\<rparr>,
      answerLength = Compact\<rparr>"

text \<open>
  Concrete inputs for the examples below: a fresh editor, a canvas at the origin of the page
  with device pixel ratio 1, an editor whose page holds two one-point strokes, and a touch
  contact.
\<close>

definition exampleApp :: App where
  "exampleApp = initialApp (createInitialState 0)"

definition exampleEnv :: Env where
  "exampleEnv = \<lparr>canvasRect = Some \<lparr>rect_left = 0, rect_top = 0\<rparr>, devicePixelRatio = 1\<rparr>"


definition touch :: "nat \<Rightarrow> real \<Rightarrow> real \<Rightarrow> PointerEvent" where
  "touch i cx cy = \<lparr>pointerId = i, clientX = cx, clientY = cy, movementX = 0, movementY = 0,
                    isMouse = False, button = 0\<rparr>"

text \<open>
  The same canvas on a display of device pixel ratio 2; a page on which two strokes share an
  id and a third has its only point at distance 11 from the origin; and a drag with the
  select tool from client position (0,0) to \<open>(cx, cy)\<close>: down, move, up.
\<close>

definition exampleEnv2 :: Env where
  "exampleEnv2 = \<lparr>canvasRect = Some \<lparr>rect_left = 0, rect_top = 0\<rparr>, devicePixelRatio = 2\<rparr>"


definition selectDrag :: "Env \<Rightarrow> real \<Rightarrow> real \<Rightarrow> Event list" where
  "selectDrag env cx cy =
     [EvPointerDown env ToolSelect (touch 1 0 0),
      EvPointerMove env ToolSelect (touch 1 cx cy),
      EvPointerUp env ToolSelect 0 (touch 1 cx cy)]"

section \<open>Shape synthesis: results\<close>

lemma pt_eta: "pt (p_x p) (p_y p) = p"
  by (simp add: pt_def)

lemma getDistance_same: "getDistance p p = 0"
  by (simp add: getDistance_def)

lemma rectangle_any:
  "createStrokesForShape idBase s e Rectangle w c =
     [pen_stroke idBase [s, pt (p_x e) (p_y s), e, pt (p_x s) (p_y e), s] w c]"
  by (simp add: createStrokesForShape_def Let_def pt_eta)

lemma line_any: "createStrokesForShape idBase s e Line w c = [pen_stroke idBase [s, e] w c]"
  by (simp add: createStrokesForShape_def Let_def pt_eta)

lemma rightTriangle_any:
  "createStrokesForShape idBase s e RightTriangle w c =
     [pen_stroke idBase [s, pt (p_x s) (p_y e), e, s] w c]"
  by (simp add: createStrokesForShape_def Let_def pt_eta)

lemma square_any: "length (createStrokesForShape idBase s e Square w c) = 1"
  by (simp add: createStrokesForShape_def Let_def)

lemma arrow_any: "length (createStrokesForShape idBase s e Arrow w c) = 2"
  by (simp add: createStrokesForShape_def Let_def)

lemma square_tap:
  "createStrokesForShape idBase p p Square w c = [pen_stroke idBase [p, p, p, p, p] w c]"
  by (simp add: createStrokesForShape_def Let_def pt_eta)

lemma arrow_tap:
  "createStrokesForShape idBase p p Arrow w c =
     [pen_stroke idBase [p, p] w c, pen_stroke (idBase + 1) [p, p, p] w c]"
  by (simp add: createStrokesForShape_def Let_def pt_eta getDistance_same)

text \<open>
  The kinds that have a guard: a drag below the threshold of the kind gives no stroke, and so
  does a tap (start and end at the same point).
\<close>

lemma guarded_tap_empty:
  assumes "ty \<notin> {Rectangle, Square, Line, Arrow, RightTriangle}"
  shows "createStrokesForShape idBase p p ty w c = []"
  using assms by (cases ty) (simp_all add: createStrokesForShape_def Let_def getDistance_same)

lemma guarded_thresholds:
  "\<bar>p_x e - p_x s\<bar> < 2 \<Longrightarrow> createStrokesForShape idBase s e Circle w c = []"
  "\<bar>p_x e - p_x s\<bar> < 2 \<or> \<bar>p_y e - p_y s\<bar> < 2 \<Longrightarrow> createStrokesForShape idBase s e Oval w c = []"
  "getDistance s e < 2 \<Longrightarrow> createStrokesForShape idBase s e Triangle w c = []"
  "\<bar>p_x e - p_x s\<bar> < 5 \<or> \<bar>p_y e - p_y s\<bar> < 5 \<Longrightarrow> createStrokesForShape idBase s e Cuboid w c = []"
  "\<bar>p_x e - p_x s\<bar> < 5 \<or> \<bar>p_y e - p_y s\<bar> < 5 \<Longrightarrow> createStrokesForShape idBase s e Pyramid w c = []"
  "\<bar>p_x e - p_x s\<bar> < 2 \<or> \<bar>p_y e - p_y s\<bar> < 5 \<Longrightarrow> createStrokesForShape idBase s e Cylinder w c = []"
  "\<bar>p_x e - p_x s\<bar> < 2 \<or> \<bar>p_y e - p_y s\<bar> < 5 \<Longrightarrow> createStrokesForShape idBase s e Cone w c = []"
  "\<bar>p_x e - p_x s\<bar> < 4 \<Longrightarrow> createStrokesForShape idBase s e Sphere w c = []"
  by (auto simp add: createStrokesForShape_def Let_def)

lemma guarded_polygons:
  assumes "ty \<in> {Pentagon, Hexagon, Star, Rhombus, Parallelogram, Trapezoid}"
      and "sqrt ((\<bar>p_x e - p_x s\<bar> / 2) * (\<bar>p_x e - p_x s\<bar> / 2)
               + (\<bar>p_y e - p_y s\<bar> / 2) * (\<bar>p_y e - p_y s\<bar> / 2)) < 2"
  shows "createStrokesForShape idBase s e ty w c = []"
  using assms by (auto simp add: createStrokesForShape_def Let_def)

text \<open>
  Claim C1. For every shape kind there is a minimal drag rectangle below which
  \<open>createStrokesForShape\<close> returns the empty list, also for rectangle, square, line and arrow.
  The code has no such guard for rectangle, square, line, arrow and right triangle: a tap
  (start and end at one point \<open>p\<close>) yields a stroke whose points are all \<open>p\<close>, and no drag
  from \<open>s\<close> to \<open>e\<close> whatsoever yields the empty list for these five kinds.
\<close>

theorem tap_is_not_rejected:
  "createStrokesForShape idBase p p Rectangle w c = [pen_stroke idBase [p, p, p, p, p] w c]
 \<and> createStrokesForShape idBase p p Square w c = [pen_stroke idBase [p, p, p, p, p] w c]
 \<and> createStrokesForShape idBase p p Line w c = [pen_stroke idBase [p, p] w c]
 \<and> createStrokesForShape idBase p p Arrow w c =
      [pen_stroke idBase [p, p] w c, pen_stroke (idBase + 1) [p, p, p] w c]
 \<and> createStrokesForShape idBase p p RightTriangle w c = [pen_stroke idBase [p, p, p, p] w c]
 \<and> createStrokesForShape idBase s e Rectangle w c \<noteq> []
 \<and> createStrokesForShape idBase s e Square w c \<noteq> []
 \<and> createStrokesForShape idBase s e Line w c \<noteq> []
 \<and> createStrokesForShape idBase s e Arrow w c \<noteq> []
 \<and> createStrokesForShape idBase s e RightTriangle w c \<noteq> []"
proof -
  have "createStrokesForShape idBase s e Square w c \<noteq> []"
    using square_any[of idBase s e w c] by auto
  moreover have "createStrokesForShape idBase s e Arrow w c \<noteq> []"
    using arrow_any[of idBase s e w c] by auto
  ultimately show ?thesis
    by (simp add: rectangle_any line_any rightTriangle_any square_tap arrow_tap pt_eta)
qed

text \<open>
  Claim C6. Synthesizing a rectangle from start point (0,0) to end point (100,50) with stroke
  width 5 yields exactly one stroke, whose points are (0,0), (100,0), (100,50), (0,50), (0,0)
  (the last point repeats the first) and whose stroke width is 5.
\<close>

theorem rectangle_drag_example:
  "createStrokesForShape idBase (pt 0 0) (pt 100 50) Rectangle 5 ''#000000''
     = [\<lparr>stroke_id = idBase,
         points = [pt 0 0, pt 100 0, pt 100 50, pt 0 50, pt 0 0],
         stroke_tool = Pen, strokeWidth = 5, color = ''#000000''\<rparr>]"
  by (simp add: createStrokesForShape_def pen_stroke_def pt_def)

section \<open>History manager: results\<close>

lemma history_ok_useHistory: "history_ok (useHistory s)"
  by (simp add: history_ok_def useHistory_def)

lemma history_ok_setState: "history_ok h \<Longrightarrow> history_ok (setState js h a)"
  by (simp add: history_ok_def setState_def Let_def)

lemma history_ok_undo: "history_ok h \<Longrightarrow> history_ok (undo h)"
  by (auto simp add: history_ok_def undo_def)

lemma history_ok_redo: "history_ok h \<Longrightarrow> history_ok (redo h)"
  by (auto simp add: history_ok_def redo_def)

lemma setState_pushes:
  assumes "history_ok h" and "js (newStateOf a (present h)) \<noteq> js (present h)"
  shows "present (setState js h a) = newStateOf a (present h)"
    and "\<not> canRedo (setState js h a)"
    and "history (setState js h a) = take (index h + 1) (history h) @ [newStateOf a (present h)]"
    and "index (setState js h a) = index h + 1"
  using assms
  by (auto simp add: history_ok_def setState_def present_def Let_def nth_append min_def canRedo_def)

text \<open>
  Claim C3, as amended. For every history and every new state that is value-equal to the
  state at the cursor, commit (\<open>setState\<close>) is a no-op: the history is returned as it is, so
  it gains no entry, no redo suffix is truncated and the cursor is unchanged. A commit
  followed at once by the same commit leaves the history, and so its length, unchanged, and
  leaves \<open>canRedo\<close> as it was before the two commits: true when the history has a redo
  suffix, false otherwise. For an arbitrary state \<open>s\<close>, the second of two successive commits
  of \<open>s\<close> changes nothing, and \<open>canRedo\<close> is true after them exactly when it was true
  before and the first commit was a no-op.
\<close>

theorem commit_value_equal_is_noop:
  assumes "history_ok h" and "newStateOf a (present h) = present h"
  shows "setState js h a = h
       \<and> setState js (setState js h a) a = h
       \<and> length (history (setState js (setState js h a) a)) = length (history h)
       \<and> (canRedo (setState js (setState js h a) a) \<longleftrightarrow> canRedo h)
       \<and> setState js (setState js h (Value s)) (Value s) = setState js h (Value s)
       \<and> (canRedo (setState js (setState js h (Value s)) (Value s)) \<longleftrightarrow>
            canRedo h \<and> js s = js (present h))"
proof -
  have a: "setState js h a = h"
    using assms by (simp add: setState_def present_def Let_def)
  have b: "setState js (setState js h (Value s)) (Value s) = setState js h (Value s)"
    using assms(1)
    by (simp add: history_ok_def setState_def Let_def newStateOf_def nth_append min_def)
  have c: "canRedo (setState js h (Value s)) \<longleftrightarrow> canRedo h \<and> js s = js (present h)"
    using assms(1)
    by (auto simp add: history_ok_def setState_def Let_def newStateOf_def canRedo_def
          present_def min_def)
  show ?thesis using a b c by simp
qed

theorem commit_value_equal_is_noop_witness:
  "history_ok \<lparr>history = [1, 2 :: int], index = 1\<rparr>
   \<and> newStateOf (Value 2) (present \<lparr>history = [1, 2 :: int], index = 1\<rparr>)
       = present \<lparr>history = [1, 2 :: int], index = 1\<rparr>
   \<and> setState (\<lambda>n. JNum (of_int n)) \<lparr>history = [1, 2 :: int], index = 1\<rparr> (Value 2)
       = \<lparr>history = [1, 2], index = 1\<rparr>
   \<and> \<not> canRedo (setState (\<lambda>n. JNum (of_int n))
          (setState (\<lambda>n. JNum (of_int n)) \<lparr>history = [1, 2 :: int], index = 1\<rparr> (Value 2)) (Value 2))"
proof -
  have ok: "history_ok \<lparr>history = [1, 2 :: int], index = 1\<rparr>"
    by (simp add: history_ok_def)
  have eq: "newStateOf (Value 2) (present \<lparr>history = [1, 2 :: int], index = 1\<rparr>)
              = present \<lparr>history = [1, 2 :: int], index = 1\<rparr>"
    by (simp add: newStateOf_def present_def)
  note t = commit_value_equal_is_noop [OF ok eq, of "\<lambda>n. JNum (of_int n)" 2]
  from t have noop: "setState (\<lambda>n. JNum (of_int n)) \<lparr>history = [1, 2 :: int], index = 1\<rparr> (Value 2)
                      = \<lparr>history = [1, 2], index = 1\<rparr>"
    by (rule conjunct1)
  from t have "canRedo (setState (\<lambda>n. JNum (of_int n))
          (setState (\<lambda>n. JNum (of_int n)) \<lparr>history = [1, 2 :: int], index = 1\<rparr> (Value 2)) (Value 2))
        \<longleftrightarrow> canRedo \<lparr>history = [1, 2 :: int], index = 1\<rparr>"
    by blast
  then have twice: "\<not> canRedo (setState (\<lambda>n. JNum (of_int n))
          (setState (\<lambda>n. JNum (of_int n)) \<lparr>history = [1, 2 :: int], index = 1\<rparr> (Value 2)) (Value 2))"
    by (simp add: canRedo_def)
  show ?thesis
    using ok eq noop twice by blast
qed

text \<open>
  The claim as stated fails where the history has a redo suffix: with snapshots 1 and 2 and
  the cursor on the first, the state 1 is value-equal to the state at the cursor, both commits
  of 1 are no-ops, and \<open>canRedo\<close> is true after them.
\<close>

theorem commit_twice_keeps_redo:
  "history_ok \<lparr>history = [1, 2 :: int], index = 0\<rparr>
   \<and> newStateOf (Value 1) (present \<lparr>history = [1, 2 :: int], index = 0\<rparr>)
       = present \<lparr>history = [1, 2 :: int], index = 0\<rparr>
   \<and> canRedo (setState (\<lambda>n. JNum (of_int n))
        (setState (\<lambda>n. JNum (of_int n)) \<lparr>history = [1, 2 :: int], index = 0\<rparr> (Value 1)) (Value 1))"
  by (simp add: history_ok_def newStateOf_def present_def setState_def canRedo_def)

text \<open>
  Claim C4. For every history whose cursor is greater than 0, \<open>undo\<close> followed by \<open>redo\<close>
  restores the history, and with it the current state, exactly. \<open>undo\<close> decrements the cursor
  floored at 0 (the subtraction on natural numbers stops at 0, so it is a no-op there) and
  \<open>redo\<close> increments it capped at the last index (a no-op at the last index).
\<close>

theorem undo_redo_inverse:
  assumes "history_ok h"
  shows "(0 < index h \<longrightarrow> redo (undo h) = h \<and> present (redo (undo h)) = present h)
       \<and> undo h = h\<lparr>index := index h - 1\<rparr>
       \<and> redo h = h\<lparr>index := min (index h + 1) (length (history h) - 1)\<rparr>"
  using assms by (auto simp add: history_ok_def undo_def redo_def min_def)

theorem undo_redo_inverse_witness:
  "history_ok \<lparr>history = [10, 20, 30 :: int], index = 1\<rparr>
   \<and> redo (undo \<lparr>history = [10, 20, 30 :: int], index = 1\<rparr>) = \<lparr>history = [10, 20, 30], index = 1\<rparr>
   \<and> present (undo \<lparr>history = [10, 20, 30 :: int], index = 1\<rparr>) = 10
   \<and> present (redo (undo \<lparr>history = [10, 20, 30 :: int], index = 1\<rparr>)) = 20"
proof -
  have ok: "history_ok \<lparr>history = [10, 20, 30 :: int], index = 1\<rparr>"
    by (simp add: history_ok_def)
  show ?thesis
    using ok undo_redo_inverse [OF ok]
    by (simp add: present_def undo_def)
qed

section \<open>Snapshots and their JSON documents\<close>
















section \<open>Frame properties of the handlers\<close>

lemma updateCurrentPage_frame:
  "viewTransform (updateCurrentPage u app) = viewTransform app"
  "selectionRect (updateCurrentPage u app) = selectionRect app"
  "isLoading (updateCurrentPage u app) = isLoading app"
  "error (updateCurrentPage u app) = error app"
  by (simp_all add: updateCurrentPage_def)

lemma handlers_frame:
  "viewTransform (handleSetStrokes f app) = viewTransform app"
  "selectionRect (handleSetStrokes f app) = selectionRect app"
  "viewTransform (handleTextUpdate i b app) = viewTransform app"
  "selectionRect (handleTextUpdate i b app) = selectionRect app"
  "viewTransform (handleItemsDelete ss ts app) = viewTransform app"
  "selectionRect (handleItemsDelete ss ts app) = selectionRect app"
  by (simp_all add: handleSetStrokes_def handleTextUpdate_def handleItemsDelete_def
        updateCurrentPage_frame)

lemma eraseAtPoint_frame:
  "viewTransform (eraseAtPoint q app) = viewTransform app"
  "selectionRect (eraseAtPoint q app) = selectionRect app"
  by (simp_all add: eraseAtPoint_def Let_def handlers_frame)

lemma handlePointerDown_vt: "viewTransform (handlePointerDown env tool e app) = viewTransform app"
  by (simp add: handlePointerDown_def Let_def eraseAtPoint_frame)

lemma handlePointerUp_vt: "viewTransform (handlePointerUp env tool now e app) = viewTransform app"
  by (simp add: handlePointerUp_def Let_def handlers_frame split: option.split)

lemma handlePointerLeave_vt:
  "viewTransform (handlePointerLeave env tool now e app) = viewTransform app"
  by (simp add: handlePointerLeave_def Let_def handlePointerUp_vt)

section \<open>The cursor and the page index stay in range\<close>

lemma snapshots_ok_page_ok: "snapshots_ok (hist app) \<Longrightarrow> page_ok app"
  by (auto simp add: snapshots_ok_def page_ok_def history_ok_def state_of_def present_def
        list_all_length state_ok_def)

lemma snapshots_ok_present: "snapshots_ok h \<Longrightarrow> state_ok (present h)"
  by (auto simp add: snapshots_ok_def history_ok_def present_def list_all_length)

lemma snapshots_ok_setState:
  assumes "snapshots_ok h" "state_ok (newStateOf a (present h))"
  shows "snapshots_ok (setState js h a)"
proof -
  have "list_all state_ok (take (index h + 1) (history h))"
    using assms(1) by (auto simp add: snapshots_ok_def list_all_iff dest: in_set_takeD)
  then show ?thesis
    using assms
    by (auto simp add: snapshots_ok_def setState_def Let_def history_ok_def present_def)
qed

lemma snapshots_ok_updateCurrentPage:
  assumes "snapshots_ok (hist app)"
  shows "snapshots_ok (hist (updateCurrentPage u app))"
  using assms snapshots_ok_present[OF assms]
  by (simp add: updateCurrentPage_def snapshots_ok_setState newStateOf_def state_ok_def)

lemma snapshots_ok_handlers:
  assumes "snapshots_ok (hist app)"
  shows "snapshots_ok (hist (handleSetStrokes f app))"
    and "snapshots_ok (hist (handleTextUpdate i b app))"
    and "snapshots_ok (hist (handleItemsDelete ss ts app))"
    and "snapshots_ok (hist (eraseAtPoint q app))"
  using assms
  by (simp_all add: handleSetStrokes_def handleTextUpdate_def handleItemsDelete_def
        eraseAtPoint_def Let_def snapshots_ok_updateCurrentPage)

lemma snapshots_ok_handlePointerDown:
  "snapshots_ok (hist app) \<Longrightarrow> snapshots_ok (hist (handlePointerDown env tool e app))"
  by (simp add: handlePointerDown_def Let_def snapshots_ok_handlers)

lemma snapshots_ok_handlePointerMove_case:
  "snapshots_ok (hist app) \<Longrightarrow>
   (case handlePointerMove env tool e app of
      Inl fault \<Rightarrow> True | Inr app' \<Rightarrow> snapshots_ok (hist app'))"
  by (simp add: handlePointerMove_def Let_def snapshots_ok_handlers split: option.split)

lemma snapshots_ok_handlePointerMove:
  assumes "snapshots_ok (hist app)" and "handlePointerMove env tool e app = Inr app'"
  shows "snapshots_ok (hist app')"
  using snapshots_ok_handlePointerMove_case [OF assms(1), of env tool e] assms(2) by simp

lemma snapshots_ok_handlePointerUp:
  "snapshots_ok (hist app) \<Longrightarrow> snapshots_ok (hist (handlePointerUp env tool now e app))"
  by (simp add: handlePointerUp_def Let_def snapshots_ok_handlers split: option.split)

lemma snapshots_ok_handlePointerLeave:
  "snapshots_ok (hist app) \<Longrightarrow> snapshots_ok (hist (handlePointerLeave env tool now e app))"
  by (simp add: handlePointerLeave_def Let_def snapshots_ok_handlePointerUp)

lemma snapshots_ok_handleResetSettings:
  assumes "snapshots_ok (hist app)"
  shows "snapshots_ok (hist (handleResetSettings app))"
  using assms snapshots_ok_present[OF assms]
  by (simp add: handleResetSettings_def Let_def snapshots_ok_setState newStateOf_def state_ok_def)

lemma snapshots_ok_undo_redo:
  assumes "snapshots_ok h"
  shows "snapshots_ok (undo h)" and "snapshots_ok (redo h)"
  using assms by (auto simp add: snapshots_ok_def history_ok_def undo_def redo_def)

lemma snapshots_ok_dispatch:
  assumes "snapshots_ok (hist app)" and "dispatch app ev = Inr app'"
  shows "snapshots_ok (hist app')"
  using assms
  by (cases ev)
     (auto simp add: snapshots_ok_handlePointerDown snapshots_ok_handlePointerMove
        snapshots_ok_handlePointerUp snapshots_ok_handlePointerLeave handleWheel_def
        snapshots_ok_handleResetSettings handleUndo_def handleRedo_def snapshots_ok_undo_redo
        split: option.splits)

lemma snapshots_ok_run:
  "snapshots_ok (hist app) \<Longrightarrow> run app evs = Inr app' \<Longrightarrow> snapshots_ok (hist app')"
proof (induction evs arbitrary: app)
  case Nil
  then show ?case by simp
next
  case (Cons ev evs)
  then show ?case
    by (cases "dispatch app ev") (auto dest: snapshots_ok_dispatch)
qed

lemma snapshots_ok_initialApp: "state_ok s0 \<Longrightarrow> snapshots_ok (hist (initialApp s0))"
  by (simp add: initialApp_def useHistory_def snapshots_ok_def history_ok_def)

lemma state_ok_createInitialState: "state_ok (createInitialState now)"
  by (simp add: state_ok_def createInitialState_def)

text \<open>Every state a run reaches from a fresh editor has its cursor and page index in range.\<close>

lemma reachable_page_ok:
  assumes "run (initialApp (createInitialState now)) evs = Inr app'"
  shows "page_ok app'"
  by (rule snapshots_ok_page_ok)
     (rule snapshots_ok_run [OF snapshots_ok_initialApp [OF state_ok_createInitialState] assms])

section \<open>Example states, evaluated\<close>

lemma getDistance_axis: "getDistance (pt a b) (pt c b) = \<bar>c - a\<bar>"
  by (simp add: getDistance_def pt_def)

lemma exampleApp_page: "currentPage exampleApp = \<lparr>page_id = 0, strokes = [], texts = []\<rparr>"
  by (simp add: exampleApp_def initialApp_def createInitialState_def currentPage_def state_of_def
        present_def useHistory_def)







lemma example_select_down:
  "canvasRect env = Some \<lparr>rect_left = 0, rect_top = 0\<rparr> \<Longrightarrow>
   handlePointerDown env ToolSelect (touch 1 0 0) exampleApp =
     exampleApp\<lparr>pointers := [(1, pt 0 0)], latestPointerPosition := pt 0 0,
                selectionRect := None, selectionStartPoint := Some (pt 0 0)\<rparr>"
  by (simp add: handlePointerDown_def Let_def touch_def map_set_def map_has_def exampleApp_page
        getPointInWorldSpace_def)
     (simp add: exampleApp_def initialApp_def)

lemma example_hand_down:
  "handlePointerDown exampleEnv ToolHand (touch 1 cx cy) exampleApp =
     exampleApp\<lparr>pointers := [(1, pt cx cy)], latestPointerPosition := pt cx cy,
                selectionRect := None\<rparr>"
  by (simp add: handlePointerDown_def Let_def touch_def map_set_def map_has_def exampleApp_page
        getPointInWorldSpace_def exampleEnv_def dpr_of_def)
     (simp add: exampleApp_def initialApp_def)

section \<open>Viewport transform: results\<close>

lemma clamp_in_range:
  "MIN_ZOOM \<le> min (max v MIN_ZOOM) MAX_ZOOM \<and> min (max v MIN_ZOOM) MAX_ZOOM \<le> MAX_ZOOM"
  by (simp add: MIN_ZOOM_def MAX_ZOOM_def)

lemma wheelZoom_range: "zoom_in_range (wheelZoom rect dpr e vt)"
  using clamp_in_range by (simp add: zoom_in_range_def wheelZoom_def Let_def)

lemma pinchScale_range:
  assumes "pinchScale s c l = Some v"
  shows "MIN_ZOOM \<le> v \<and> v \<le> MAX_ZOOM"
proof (cases "l = 0")
  case True
  then show ?thesis
    using assms by (auto simp add: pinchScale_def MIN_ZOOM_def MAX_ZOOM_def split: if_splits)
next
  case False
  then have "v = min (max (s * (c / l)) MIN_ZOOM) MAX_ZOOM"
    using assms by (simp add: pinchScale_def)
  then show ?thesis using clamp_in_range [of "s * (c / l)"] by simp
qed

lemma pinchZoom_range:
  assumes "pinchZoom rect dpr p1 p2 g vt = Some vt'"
  shows "zoom_in_range vt'"
  using assms pinchScale_range [of "scale vt" "getDistance p1 p2" "g_dist g"]
  by (auto simp add: pinchZoom_def Let_def zoom_in_range_def split: option.splits)

lemma panBy_range: "zoom_in_range (panBy dpr p e vt) = zoom_in_range vt"
  by (simp add: panBy_def Let_def zoom_in_range_def)

lemma handlePointerMove_range_case:
  "zoom_in_range (viewTransform app) \<Longrightarrow>
   (case handlePointerMove env tool e app of
      Inl fault \<Rightarrow> True | Inr app' \<Rightarrow> zoom_in_range (viewTransform app'))"
  by (auto simp add: handlePointerMove_def Let_def eraseAtPoint_frame panBy_range
      dest: pinchZoom_range split: option.split)

lemma handlePointerMove_range:
  assumes "zoom_in_range (viewTransform app)" and "handlePointerMove env tool e app = Inr app'"
  shows "zoom_in_range (viewTransform app')"
  using handlePointerMove_range_case [OF assms(1), of env tool e] assms(2) by simp

lemma handleWheel_range:
  "zoom_in_range (viewTransform app) \<Longrightarrow> zoom_in_range (viewTransform (handleWheel env e app))"
  by (simp add: handleWheel_def wheelZoom_range split: option.split)

lemma handleResetSettings_range: "zoom_in_range (viewTransform (handleResetSettings app))"
  by (simp add: handleResetSettings_def Let_def zoom_in_range_def MIN_ZOOM_def MAX_ZOOM_def)

lemma dispatch_range:
  assumes "zoom_in_range (viewTransform app)" and "dispatch app ev = Inr app'"
  shows "zoom_in_range (viewTransform app')"
  using assms
  by (cases ev)
     (auto simp add: handlePointerDown_vt handlePointerUp_vt handlePointerLeave_vt
        handleWheel_range handleResetSettings_range handleUndo_def handleRedo_def
        dest: handlePointerMove_range)

lemma run_range:
  "zoom_in_range (viewTransform app) \<Longrightarrow> run app evs = Inr app' \<Longrightarrow>
   zoom_in_range (viewTransform app')"
proof (induction evs arbitrary: app)
  case Nil
  then show ?case by simp
next
  case (Cons ev evs)
  then show ?case
    by (cases "dispatch app ev") (auto dest: dispatch_range)
qed

lemma initialApp_range: "zoom_in_range (viewTransform (initialApp s0))"
  by (simp add: initialApp_def zoom_in_range_def MIN_ZOOM_def MAX_ZOOM_def)

text \<open>
  Whenever a run from the initial state ends in a state, the scale of that state is within
  the zoom range, so it is never zero and the handlers divide by it safely. The runs that do
  not end in a state are those that store \<^verbatim>\<open>NaN\<close>.
\<close>

lemma zoom_in_range_unless_NaN:
  assumes "run (initialApp s0) evs = Inr app'"
  shows "MIN_ZOOM \<le> scale (viewTransform app') \<and> scale (viewTransform app') \<le> MAX_ZOOM"
  using run_range [OF initialApp_range assms] by (simp add: zoom_in_range_def)

text \<open>
  A previous distance of zero with the contacts apart now: the quotient is
  \<^verbatim>\<open>Infinity\<close>, and the clamp brings the scale to \<open>MAX_ZOOM\<close>.
\<close>

lemma pinch_from_coincident_contacts:
  "map_sum id (\<lambda>app. scale (viewTransform app))
     (run exampleApp
        [EvPointerDown exampleEnv ToolHand (touch 1 100 100),
         EvPointerDown exampleEnv ToolHand (touch 2 100 100),
         EvPointerMove exampleEnv ToolHand (touch 2 200 100)]) = Inr 5"
  unfolding run.simps dispatch.simps example_hand_down
  by (simp add: handlePointerDown_def handlePointerMove_def Let_def touch_def map_set_def
        map_has_def getDistance_axis getDistance_same getMidpoint_def exampleEnv_def dpr_of_def
        pinchZoom_def pinchScale_def MAX_ZOOM_def)
     (simp add: exampleApp_def initialApp_def)

text \<open>
  Claim C8. For every sequence of viewport operations (pan, wheel zoom, two-contact pinch
  zoom) starting from the initial transform, the scale satisfies
  \<open>MIN_ZOOM \<le> scale \<le> MAX_ZOOM\<close>. The code breaks this on one path: two contacts go down at
  the same client position (100,100), so the previous distance of the gesture is 0, and a
  move event arrives for one of them at that same position, so the current distance is 0
  too. The pinch branch computes 0/0, the clamp keeps \<^verbatim>\<open>NaN\<close>, and the handler stores
  \<^verbatim>\<open>NaN\<close> as the scale: the run ends in the fault \<open>NotANumber\<close>, not in a state whose scale
  is within the range.
\<close>

theorem pinch_of_coincident_contacts_stores_NaN:
  "run exampleApp
     [EvPointerDown exampleEnv ToolHand (touch 1 100 100),
      EvPointerDown exampleEnv ToolHand (touch 2 100 100),
      EvPointerMove exampleEnv ToolHand (touch 2 100 100)] = Inl NotANumber
   \<and> pinchScale 1 0 0 = None"
proof -
  have "run exampleApp
     [EvPointerDown exampleEnv ToolHand (touch 1 100 100),
      EvPointerDown exampleEnv ToolHand (touch 2 100 100),
      EvPointerMove exampleEnv ToolHand (touch 2 100 100)] = Inl NotANumber"
    unfolding run.simps dispatch.simps example_hand_down
    by (simp add: handlePointerDown_def handlePointerMove_def Let_def touch_def map_set_def
          map_has_def getDistance_same getMidpoint_def exampleEnv_def dpr_of_def
          pinchZoom_def pinchScale_def)
       (simp add: exampleApp_def initialApp_def)
  then show ?thesis by (simp add: pinchScale_def)
qed

section \<open>Zoom anchoring in double precision: results\<close>

subsection \<open>The rounding error of one operation\<close>

lemma round_half_even_error: "\<bar>of_int (round_half_even q) - q\<bar> \<le> 1 / 2"
  unfolding round_half_even_def Let_def
  by (auto simp add: abs_if) linarith+

lemma double_ulp_pos: "0 < double_ulp x"
  by (simp add: double_ulp_def)

lemma round_double_error_ulp: "\<bar>round_double x - x\<bar> \<le> double_ulp x / 2"
proof (cases "x = 0")
  case True
  then show ?thesis using double_ulp_pos[of x] by (simp add: round_double_def)
next
  case False
  let ?u = "double_ulp x"
  let ?n = "real_of_int (round_half_even (x / ?u))"
  have u: "0 < ?u" by (rule double_ulp_pos)
  have "?n * ?u - x = (?n - x / ?u) * ?u"
    using u by (simp add: left_diff_distrib)
  then have "\<bar>?n * ?u - x\<bar> = \<bar>?n - x / ?u\<bar> * ?u"
    using u by (simp add: abs_mult)
  also have "\<dots> \<le> (1 / 2) * ?u"
    using round_half_even_error[of "x / ?u"] u
    by (intro mult_right_mono) simp_all
  finally show ?thesis using False by (simp add: round_double_def)
qed

lemma floor_log_le: assumes "0 < y" shows "2 powr of_int \<lfloor>log 2 y\<rfloor> \<le> y"
proof -
  have "of_int \<lfloor>log 2 y\<rfloor> \<le> log 2 y" by simp
  then have "2 powr of_int \<lfloor>log 2 y\<rfloor> \<le> 2 powr log 2 y"
    by (simp only: powr_le_cancel_iff) 
  then show ?thesis using assms by simp
qed

lemma pow2_int_minus: "(2::real) powr of_int (e - 53) = 2 powr of_int e / 2 ^ 53"
proof -
  have "(2::real) powr of_int (e - 53) = 2 powr (of_int e - 53)" by simp
  also have "\<dots> = 2 powr of_int e / 2 powr 53" by (rule powr_diff)
  also have "(2::real) powr 53 = 2 ^ 53"
    using powr_realpow [of "2::real" 53] by simp
  finally show ?thesis .
qed

lemma pow2_minus_1075: "(2::real) powr of_int (- 1022 - 53) = 1 / 2 ^ 1075"
proof -
  have "(2::real) powr of_int (- 1022 - 53) = 2 powr (- 1075)" by simp
  also have "\<dots> = 1 / 2 powr 1075" by (rule powr_minus_divide)
  also have "(2::real) powr 1075 = 2 ^ 1075"
    using powr_realpow [of "2::real" 1075] by simp
  finally show ?thesis .
qed

lemma double_ulp_half: "double_ulp x / 2 = 2 powr of_int (double_exponent x - 53)"
proof -
  have "(2::real) powr of_int (double_exponent x - 53)
          = 2 powr (of_int (double_exponent x - 52) - 1)"
    by simp
  also have "\<dots> = 2 powr of_int (double_exponent x - 52) / 2 powr 1"
    by (rule powr_diff)
  finally show ?thesis by (simp add: double_ulp_def)
qed

lemma double_ulp_bound:
  assumes "x \<noteq> 0"
  shows "double_ulp x / 2 \<le> \<bar>x\<bar> / 2 ^ 53 + 1 / 2 ^ 1075"
proof (cases "\<lfloor>log 2 \<bar>x\<bar>\<rfloor> \<ge> - 1022")
  case True
  then have e: "double_exponent x = \<lfloor>log 2 \<bar>x\<bar>\<rfloor>"
    by (simp add: double_exponent_def)
  have "2 powr of_int \<lfloor>log 2 \<bar>x\<bar>\<rfloor> \<le> \<bar>x\<bar>"
    using assms by (intro floor_log_le) simp
  then have "2 powr of_int \<lfloor>log 2 \<bar>x\<bar>\<rfloor> / 2 ^ 53 \<le> \<bar>x\<bar> / 2 ^ 53"
    by (rule divide_right_mono) simp
  then have "double_ulp x / 2 \<le> \<bar>x\<bar> / 2 ^ 53"
    unfolding double_ulp_half e pow2_int_minus .
  moreover have "(0::real) \<le> 1 / 2 ^ 1075" by (rule divide_nonneg_nonneg) simp_all
  ultimately show ?thesis by linarith
next
  case False
  have e: "double_exponent x = - 1022"
    using False by (simp add: double_exponent_def max_def)
  have "double_ulp x / 2 = 1 / 2 ^ 1075"
    unfolding double_ulp_half e by (rule pow2_minus_1075)
  moreover have "(0::real) \<le> \<bar>x\<bar> / 2 ^ 53" by (rule divide_nonneg_nonneg) simp_all
  ultimately show ?thesis by linarith
qed

lemma round_double_error: "\<bar>round_double x - x\<bar> \<le> \<bar>x\<bar> / 2 ^ 53 + 1 / 2 ^ 1075"
proof (cases "x = 0")
  case True
  have "(0::real) \<le> 1 / 2 ^ 1075" by (rule divide_nonneg_nonneg) simp_all
  then show ?thesis using True by (simp add: round_double_def)
next
  case False
  then show ?thesis
    using round_double_error_ulp [of x] double_ulp_bound [of x] by linarith
qed

lemma fl_error: "fl x = Some r \<Longrightarrow> \<bar>r - x\<bar> \<le> \<bar>x\<bar> / 2 ^ 53 + 1 / 2 ^ 1075"
  using round_double_error [of x] by (auto simp add: fl_def Let_def split: if_splits)

lemma fl_defined:
  assumes "\<bar>x\<bar> \<le> 2 ^ 1022"
  obtains r where "fl x = Some r" and "\<bar>r\<bar> \<le> 2 * \<bar>x\<bar> + 1"
proof -
  define r where "r = round_double x"
  define a :: real where "a = 2 ^ 1022"
  define b :: real where "b = 2 ^ 1024"
  have ab: "2 * a + 1 < b" by (simp add: a_def b_def)
  have xa: "\<bar>x\<bar> \<le> a" using assms by (simp add: a_def)
  have "\<bar>r - x\<bar> \<le> \<bar>x\<bar> / 2 ^ 53 + 1 / 2 ^ 1075"
    unfolding r_def by (rule round_double_error)
  moreover have "\<bar>x\<bar> / 2 ^ 53 \<le> \<bar>x\<bar> / 1" by (intro divide_left_mono) simp_all
  moreover have "(1::real) / 2 ^ 1075 \<le> 1" by simp
  moreover have "\<bar>r\<bar> \<le> \<bar>r - x\<bar> + \<bar>x\<bar>" by simp
  ultimately have le: "\<bar>r\<bar> \<le> 2 * \<bar>x\<bar> + 1" by simp
  then have "\<bar>r\<bar> < b" using xa ab by simp
  then have "fl x = Some r" by (simp add: fl_def r_def [symmetric] b_def)
  then show ?thesis using le that by blast
qed

subsection \<open>Evaluating the rounding\<close>

lemma floor_log2_eqI:
  assumes "0 < y" and "2 powr of_int e \<le> y" and "y < 2 powr of_int (e + 1)"
  shows "\<lfloor>log 2 y\<rfloor> = e"
proof (rule floor_unique)
  show "of_int e \<le> log 2 y"
    using assms(1,2) by (simp add: le_log_iff)
  have "log 2 y < of_int (e + 1)"
    using assms(1,3) by (simp add: log_less_iff)
  then show "log 2 y < of_int e + 1" by simp
qed

lemma powr_neg_nat: "(2::real) powr of_int (- int a) = 1 / 2 ^ a"
proof -
  have "(2::real) powr of_int (- int a) = 2 powr (- real a)" by simp
  also have "\<dots> = 1 / 2 powr real a" by (rule powr_minus_divide)
  also have "(2::real) powr real a = 2 ^ a" using powr_realpow [of "2::real" a] by simp
  finally show ?thesis .
qed

lemma round_double_small:
  assumes "1 / 2 ^ a \<le> \<bar>x\<bar>" and "\<bar>x\<bar> < 2 / 2 ^ a" and "a \<le> 1022"
      and "round_half_even (x * 2 ^ (a + 52)) = n"
  shows "round_double x = of_int n / 2 ^ (a + 52)"
proof -
  have pos: "0 < \<bar>x\<bar>"
    using assms(1) by (smt (verit) divide_pos_pos zero_less_power)
  have up: "(2::real) powr of_int (- int a + 1) = 2 / 2 ^ a"
  proof -
    have "(2::real) powr of_int (- int a + 1) = 2 powr (of_int (- int a) + 1)" by simp
    also have "\<dots> = 2 powr of_int (- int a) * 2 powr 1" by (rule powr_add)
    also have "\<dots> = (1 / 2 ^ a) * 2" by (simp only: powr_neg_nat powr_one_gt_zero_iff) simp
    finally show ?thesis by simp
  qed
  have "\<lfloor>log 2 \<bar>x\<bar>\<rfloor> = - int a"
    by (rule floor_log2_eqI [OF pos]) (use assms(1,2) in \<open>simp_all only: powr_neg_nat up\<close>)
  then have e: "double_exponent x = - int a"
    using assms(3) by (simp add: double_exponent_def)
  have "double_ulp x = 2 powr of_int (- int (a + 52))"
    by (simp add: double_ulp_def e)
  then have u: "double_ulp x = 1 / 2 ^ (a + 52)"
    by (simp only: powr_neg_nat)
  have "x \<noteq> 0" using pos by simp
  then show ?thesis
    using assms(4) by (simp add: round_double_def u)
qed

lemma fl_eval:
  assumes "round_double x = r" and "\<bar>r\<bar> < 2 ^ 1024"
  shows "fl x = Some r"
  using assms by (simp add: fl_def)

lemma rd_X01: "round_double X01 = X01"
  unfolding X01_def
  by (subst round_double_small [where a = 4 and n = 7205759403792794])
     (simp_all add: round_half_even_def)


lemma round_double_unit:
  assumes "1 \<le> \<bar>x\<bar>" and "\<bar>x\<bar> < 2" and "round_half_even (x * 2 ^ 52) = n"
  shows "round_double x = of_int n / 2 ^ 52"
  using round_double_small [of 0 x n] assms by simp

lemma rd_three_halves: "round_double (3 / 2) = 3 / 2"
  by (subst round_double_unit [where n = 6755399441055744]) (simp_all add: round_half_even_def)

lemma rd_product: "round_double (X01 * (3 / 2)) = 1351079888211149 / 9007199254740992"
  unfolding X01_def
  by (subst round_double_small [where a = 3 and n = 5404319552844596])
     (simp_all add: round_half_even_def)

lemma rd_offset:
  "round_double (X01 - 1351079888211149 / 9007199254740992)
     = - (1801439850948199 / 36028797018963968)"
  unfolding X01_def
  by (subst round_double_small [where a = 5 and n = "- 7205759403792796"])
     (simp_all add: round_half_even_def)

lemma rd_back:
  "round_double (X01 - - (1801439850948199 / 36028797018963968))
     = 1351079888211149 / 9007199254740992"
  unfolding X01_def
  by (subst round_double_small [where a = 3 and n = 5404319552844596])
     (simp_all add: round_half_even_def)

lemma rd_world:
  "round_double (1351079888211149 / 9007199254740992 / (3 / 2))
     = 7205759403792795 / 72057594037927936"
  by (subst round_double_small [where a = 4 and n = 7205759403792795])
     (simp_all add: round_half_even_def)

lemma rd_one_tenth: "round_double (1 / 10) = X01"
  unfolding X01_def
  by (subst round_double_small [where a = 4 and n = 7205759403792794])
     (simp_all add: round_half_even_def)

text \<open>
  The example: the pointer is at client position 0.1 on a canvas whose rectangle starts at
  0, with device pixel ratio 1, offset 0 and scale 1, and the zoom takes the scale to 1.5
  (a wheel event with \<^verbatim>\<open>deltaY = -100\<close>).
\<close>

lemma zoom_example_physical: "fl (1 / 10) = Some X01 \<and> physical_double X01 0 1 = Some X01"
proof -
  have "fl X01 = Some X01"
    by (rule fl_eval [OF rd_X01]) (simp add: X01_def)
  moreover have "fl (1 / 10) = Some X01"
    by (rule fl_eval [OF rd_one_tenth]) (simp add: X01_def)
  ultimately show ?thesis
    by (simp add: physical_double_def d_sub_def d_mul_def)
qed

lemma zoom_example_world_before: "toWorld_double X01 0 1 = Some X01"
proof -
  have "fl X01 = Some X01"
    by (rule fl_eval [OF rd_X01]) (simp add: X01_def)
  then show ?thesis
    by (simp add: toWorld_double_def d_sub_def d_div_def)
qed

lemma zoom_example_offset:
  "zoomOffset_double X01 0 1 (3 / 2) = Some (- (1801439850948199 / 36028797018963968))"
proof -
  have f1: "fl X01 = Some X01"
    by (rule fl_eval [OF rd_X01]) (simp add: X01_def)
  have f2: "fl (3 / 2) = Some (3 / 2)"
    by (rule fl_eval [OF rd_three_halves]) simp
  have f3: "fl (X01 * (3 / 2)) = Some (1351079888211149 / 9007199254740992)"
    by (rule fl_eval [OF rd_product]) simp
  have f4: "fl (X01 - 1351079888211149 / 9007199254740992)
              = Some (- (1801439850948199 / 36028797018963968))"
    by (rule fl_eval [OF rd_offset]) simp
  show ?thesis
    unfolding zoomOffset_double_def d_sub_def d_div_def d_mul_def
    by (simp only: diff_zero div_by_1 one_neq_zero if_False f1 f2 f3 f4 Option.bind.simps)
qed

lemma zoom_example_world_after:
  "toWorld_double X01 (- (1801439850948199 / 36028797018963968)) (3 / 2)
     = Some (7205759403792795 / 72057594037927936)"
proof -
  have f5: "fl (X01 - - (1801439850948199 / 36028797018963968))
              = Some (1351079888211149 / 9007199254740992)"
    by (rule fl_eval [OF rd_back]) simp
  have f6: "fl (1351079888211149 / 9007199254740992 / (3 / 2))
              = Some (7205759403792795 / 72057594037927936)"
    by (rule fl_eval [OF rd_world]) simp
  have nz: "((3 / 2 :: real) = 0) = False" by simp
  show ?thesis
    unfolding toWorld_double_def d_sub_def d_div_def
    by (simp only: nz if_False f5 f6 Option.bind.simps)
qed

subsection \<open>The error of the anchoring\<close>

lemma div_by_scale:
  fixes y s :: real
  assumes "1 / 5 \<le> s" and "0 \<le> y"
  shows "y / s \<le> 5 * y"
proof -
  have "y / s \<le> y / (1 / 5)"
    using assms by (intro divide_left_mono) simp_all
  then show ?thesis by simp
qed

lemma abs_div_by_scale:
  fixes a s :: real
  assumes "1 / 5 \<le> s"
  shows "\<bar>a / s\<bar> \<le> 5 * \<bar>a\<bar>"
proof -
  have "\<bar>s\<bar> = s" using assms by simp
  moreover have "\<bar>a / s\<bar> = \<bar>a\<bar> / \<bar>s\<bar>" by (rule abs_divide)
  ultimately have e: "\<bar>a / s\<bar> = \<bar>a\<bar> / s" by (simp only:)
  show ?thesis unfolding e by (rule div_by_scale [OF assms]) simp
qed

lemma scale_bound:
  fixes y c c' A h k :: real
  assumes "y \<le> c * A + c' * h" and "0 < k"
  shows "y / k \<le> c * (A / k) + c' * (h / k)"
proof -
  have "y / k \<le> (c * A + c' * h) / k" using assms by (simp add: divide_right_mono)
  then show ?thesis by (simp add: add_divide_distrib)
qed

lemma anchoring_error:
  fixes P off s s' :: real
  assumes s: "1 / 5 \<le> s" "s \<le> 5" and s': "1 / 5 \<le> s'" "s' \<le> 5"
      and d: "fl (P - off) = Some d" and w0: "fl (d / s) = Some w0"
      and z: "fl (s' / s) = Some z" and t: "fl (d * z) = Some t"
      and o': "fl (P - t) = Some off'"
      and d': "fl (P - off') = Some d'" and w1: "fl (d' / s') = Some w1"
  shows "\<bar>w1 - w0\<bar> \<le> (\<bar>P\<bar> + \<bar>off\<bar>) / 2 ^ 40 + 1 / 2 ^ 1067"
proof -
  define k :: real where "k = 2 ^ 53"
  define h :: real where "h = 1 / 2 ^ 1075"
  define A where "A = \<bar>P\<bar> + \<bar>off\<bar>"
  define X where "X = P - off"
  define r where "r = s' / s"
  define uA where "uA = A / k"
  define uh where "uh = h / k"
  define u where "u = 1 / k"
  have k0: "0 < k" by (simp add: k_def)
  have h0: "0 \<le> h" by (simp add: h_def)
  have A0: "0 \<le> A" by (simp add: A_def)
  have uA0: "0 \<le> uA" using A0 k0 by (simp add: uA_def)
  have uA1: "uA \<le> A"
  proof -
    have "A / k \<le> A / 1" using A0 by (intro divide_left_mono) (simp_all add: k_def)
    then show ?thesis by (simp add: uA_def)
  qed
  have uh0: "0 \<le> uh" using h0 k0 by (simp add: uh_def)
  have uh1: "uh * 4096 \<le> h" by (simp add: uh_def h_def k_def)
  have u0: "0 \<le> u" using k0 by (simp add: u_def)
  have hu: "h \<le> u" by (simp add: h_def u_def k_def divide_left_mono)
  have err: "\<bar>y - x\<bar> \<le> \<bar>x\<bar> / k + h" if "fl x = Some y" for x y
    using fl_error [OF that] by (simp add: k_def h_def)
  have sb: "y / k \<le> c * uA + c' * uh" if "y \<le> c * A + c' * h" for y c c'
    unfolding uA_def uh_def by (rule scale_bound [OF that k0])
  have XA: "\<bar>X\<bar> \<le> A" by (simp add: X_def A_def)
  have PA: "\<bar>P\<bar> \<le> A" by (simp add: A_def)
  have r0: "0 < r" using s s' by (simp add: r_def)
  have r25: "r \<le> 25"
  proof -
    have "s' / s \<le> 5 * s'" using div_by_scale [OF s(1), of s'] s' by simp
    then show ?thesis using s' by (simp add: r_def)
  qed
  \<comment> \<open>the difference before the zoom\<close>
  have "\<bar>X\<bar> / k \<le> 1 * uA + 0 * uh" by (rule sb) (use XA in simp)
  then have e1: "\<bar>d - X\<bar> \<le> uA + h"
    using err [OF d] by (simp add: X_def)
  have "\<bar>d\<bar> \<le> \<bar>d - X\<bar> + \<bar>X\<bar>" by simp
  then have ad: "\<bar>d\<bar> \<le> 2 * A + 1 * h"
    using e1 XA uA1 by simp
  have dk: "\<bar>d\<bar> / k \<le> 2 * uA + 1 * uh" by (rule sb [OF ad])
  \<comment> \<open>the world coordinate before the zoom\<close>
  have ds: "\<bar>d / s\<bar> \<le> 10 * A + 5 * h"
    using abs_div_by_scale [OF s(1), of d] ad by linarith
  have "\<bar>w0 - d / s\<bar> \<le> \<bar>d / s\<bar> / k + h" by (rule err [OF w0])
  moreover have "\<bar>d / s\<bar> / k \<le> 10 * uA + 5 * uh" by (rule sb [OF ds])
  moreover have "\<bar>d / s - X / s\<bar> \<le> 5 * \<bar>d - X\<bar>"
    using abs_div_by_scale [OF s(1), of "d - X"] by (simp add: diff_divide_distrib)
  moreover have "\<bar>w0 - X / s\<bar> \<le> \<bar>w0 - d / s\<bar> + \<bar>d / s - X / s\<bar>" by simp
  ultimately have b0: "\<bar>w0 - X / s\<bar> \<le> 15 * uA + 5 * uh + 6 * h"
    using e1 by simp
  \<comment> \<open>the zoom factor\<close>
  have "\<bar>r\<bar> / k \<le> 25 * u"
  proof -
    have "\<bar>r\<bar> / k \<le> 25 / k" using r0 r25 k0 by (intro divide_right_mono) simp_all
    then show ?thesis by (simp add: u_def)
  qed
  then have ez: "\<bar>z - r\<bar> \<le> 26 * u"
    using err [OF z] hu by (simp add: r_def)
  have "u \<le> 1 / 4096" by (simp add: u_def k_def)
  moreover have "\<bar>z\<bar> \<le> \<bar>z - r\<bar> + r" using r0 by simp
  ultimately have az: "\<bar>z\<bar> \<le> 26" using ez r25 by simp
  \<comment> \<open>the product\<close>
  have dz: "\<bar>d * z\<bar> \<le> 52 * A + 26 * h"
  proof -
    have "\<bar>d * z\<bar> \<le> \<bar>d\<bar> * 26"
      unfolding abs_mult using az by (intro mult_left_mono) simp_all
    then show ?thesis using ad by linarith
  qed
  have "\<bar>t - d * z\<bar> \<le> \<bar>d * z\<bar> / k + h" by (rule err [OF t])
  moreover have "\<bar>d * z\<bar> / k \<le> 52 * uA + 26 * uh" by (rule sb [OF dz])
  moreover have "\<bar>d * z - X * r\<bar> \<le> 26 * (\<bar>d\<bar> / k) + 25 * \<bar>d - X\<bar>"
  proof -
    have "d * z - X * r = d * (z - r) + r * (d - X)" by (simp add: algebra_simps)
    then have "\<bar>d * z - X * r\<bar> \<le> \<bar>d\<bar> * \<bar>z - r\<bar> + \<bar>r\<bar> * \<bar>d - X\<bar>"
      by (metis abs_mult abs_triangle_ineq)
    moreover have "\<bar>d\<bar> * \<bar>z - r\<bar> \<le> \<bar>d\<bar> * (26 * u)"
      using ez by (intro mult_left_mono) simp_all
    moreover have "\<bar>d\<bar> * (26 * u) = 26 * (\<bar>d\<bar> / k)" by (simp add: u_def)
    moreover have "\<bar>r\<bar> * \<bar>d - X\<bar> \<le> 25 * \<bar>d - X\<bar>"
      using r0 r25 by (intro mult_right_mono) simp_all
    ultimately show ?thesis by linarith
  qed
  moreover have "\<bar>t - X * r\<bar> \<le> \<bar>t - d * z\<bar> + \<bar>d * z - X * r\<bar>" by simp
  ultimately have et: "\<bar>t - X * r\<bar> \<le> 129 * uA + 52 * uh + 26 * h"
    using e1 dk by simp
  have "\<bar>X * r\<bar> \<le> 25 * A"
  proof -
    have "\<bar>X * r\<bar> = \<bar>X\<bar> * r" using r0 by (simp add: abs_mult)
    also have "\<dots> \<le> A * 25" using XA r0 r25 A0 by (intro mult_mono) simp_all
    finally show ?thesis by simp
  qed
  moreover have "\<bar>t\<bar> \<le> \<bar>t - X * r\<bar> + \<bar>X * r\<bar>" by simp
  ultimately have at: "\<bar>t\<bar> \<le> 154 * A + 78 * h"
    using et uA1 uh1 uh0 h0 by simp
  \<comment> \<open>the new offset\<close>
  have "\<bar>P - t\<bar> \<le> \<bar>P\<bar> + \<bar>t\<bar>" by simp
  then have pt: "\<bar>P - t\<bar> \<le> 155 * A + 78 * h" using at PA by simp
  have "\<bar>off' - (P - t)\<bar> \<le> \<bar>P - t\<bar> / k + h" by (rule err [OF o'])
  moreover have "\<bar>P - t\<bar> / k \<le> 155 * uA + 78 * uh" by (rule sb [OF pt])
  moreover have "\<bar>(P - off') - t\<bar> = \<bar>off' - (P - t)\<bar>" by simp
  ultimately have eo: "\<bar>(P - off') - t\<bar> \<le> 155 * uA + 78 * uh + h"
    by simp
  \<comment> \<open>the difference after the zoom\<close>
  have "\<bar>P - off'\<bar> \<le> \<bar>(P - off') - t\<bar> + \<bar>t\<bar>" by simp
  then have po: "\<bar>P - off'\<bar> \<le> 309 * A + 157 * h"
    using eo at uA1 uh1 uh0 h0 by simp
  have "\<bar>d' - (P - off')\<bar> \<le> \<bar>P - off'\<bar> / k + h" by (rule err [OF d'])
  moreover have "\<bar>P - off'\<bar> / k \<le> 309 * uA + 157 * uh" by (rule sb [OF po])
  moreover have "\<bar>d' - t\<bar> \<le> \<bar>d' - (P - off')\<bar> + \<bar>(P - off') - t\<bar>" by simp
  ultimately have ed': "\<bar>d' - t\<bar> \<le> 464 * uA + 235 * uh + 2 * h"
    using eo by simp
  have "\<bar>d'\<bar> \<le> \<bar>d' - t\<bar> + \<bar>t\<bar>" by simp
  then have ad': "\<bar>d'\<bar> \<le> 618 * A + 315 * h"
    using ed' at uA1 uh1 uh0 h0 by simp
  \<comment> \<open>the world coordinate after the zoom\<close>
  have ds': "\<bar>d' / s'\<bar> \<le> 3090 * A + 1575 * h"
    using abs_div_by_scale [OF s'(1), of d'] ad' by linarith
  have "\<bar>w1 - d' / s'\<bar> \<le> \<bar>d' / s'\<bar> / k + h" by (rule err [OF w1])
  moreover have "\<bar>d' / s'\<bar> / k \<le> 3090 * uA + 1575 * uh" by (rule sb [OF ds'])
  moreover have "\<bar>d' / s' - t / s'\<bar> \<le> 5 * \<bar>d' - t\<bar>"
    using abs_div_by_scale [OF s'(1), of "d' - t"] by (simp add: diff_divide_distrib)
  moreover have "\<bar>t / s' - X / s\<bar> \<le> 5 * \<bar>t - X * r\<bar>"
  proof -
    have "X * r / s' = X / s" using s s' by (simp add: r_def)
    then have "t / s' - X / s = (t - X * r) / s'" by (simp add: diff_divide_distrib)
    then show ?thesis using abs_div_by_scale [OF s'(1), of "t - X * r"] by simp
  qed
  moreover have "\<bar>w1 - X / s\<bar>
      \<le> \<bar>w1 - d' / s'\<bar> + \<bar>d' / s' - t / s'\<bar> + \<bar>t / s' - X / s\<bar>" by simp
  ultimately have b1: "\<bar>w1 - X / s\<bar> \<le> 6055 * uA + 3010 * uh + 141 * h"
    using ed' et by simp
  have "\<bar>w1 - w0\<bar> \<le> \<bar>w1 - X / s\<bar> + \<bar>w0 - X / s\<bar>" by simp
  then have "\<bar>w1 - w0\<bar> \<le> 8192 * uA + 256 * h"
    using b0 b1 uA0 uh0 uh1 h0 by simp
  moreover have "8192 * uA = A / 2 ^ 40" by (simp add: uA_def k_def)
  moreover have "256 * h = 1 / 2 ^ 1067" by (simp add: h_def)
  ultimately show ?thesis by (simp add: A_def)
qed

text \<open>
  None of the operations overflows when the focal point and the offset are at most
  \<open>2 ^ 1000\<close> in size together: the three computations return finite doubles.
\<close>

lemma anchoring_defined_scaled:
  fixes P off s s' :: real
  assumes s: "1 / 5 \<le> s" "s \<le> 5" and s': "1 / 5 \<le> s'" "s' \<le> 5"
      and A: "\<bar>P\<bar> + \<bar>off\<bar> \<le> 2 ^ 1000"
  shows "\<exists>w0 off' w1. toWorld_double P off s = Some w0
           \<and> zoomOffset_double P off s s' = Some off'
           \<and> toWorld_double P off' s' = Some w1"
proof -
  define A where "A = \<bar>P\<bar> + \<bar>off\<bar>"
  define B :: real where "B = 2 ^ 1022"
  have A0: "0 \<le> A" by (simp add: A_def)
  have AB: "8192 * A + 8192 \<le> B"
  proof -
    have "8192 * A \<le> 8192 * 2 ^ 1000" using A by (simp add: A_def)
    moreover have "8192 * 2 ^ 1000 + 8192 \<le> (2::real) ^ 1022" by simp
    ultimately show ?thesis unfolding B_def by (rule order_trans [OF add_right_mono])
  qed
  have fd: "\<exists>r. fl x = Some r \<and> \<bar>r\<bar> \<le> 2 * \<bar>x\<bar> + 1" if "\<bar>x\<bar> \<le> B" for x
    using fl_defined [of x] that unfolding B_def by blast
  have PA: "\<bar>P\<bar> \<le> A" by (simp add: A_def)
  have sn: "s \<noteq> 0" "s' \<noteq> 0" using s s' by simp_all
  have "\<bar>P - off\<bar> \<le> A" by (simp add: A_def)
  then have "\<bar>P - off\<bar> \<le> B" using AB A0 by simp
  from fd [OF this] obtain d where d: "fl (P - off) = Some d" and ad: "\<bar>d\<bar> \<le> 2 * \<bar>P - off\<bar> + 1"
    by blast
  have ad: "\<bar>d\<bar> \<le> 2 * A + 1" using ad \<open>\<bar>P - off\<bar> \<le> A\<close> by simp
  have ds: "\<bar>d / s\<bar> \<le> 10 * A + 5" using abs_div_by_scale [OF s(1), of d] ad by simp
  then have "\<bar>d / s\<bar> \<le> B" using AB A0 by simp
  from fd [OF this] obtain w0 where w0: "fl (d / s) = Some w0" by blast
  have r25: "\<bar>s' / s\<bar> \<le> 25" using abs_div_by_scale [OF s(1), of s'] s' by simp
  then have "\<bar>s' / s\<bar> \<le> B" using AB A0 by simp
  from fd [OF this] obtain z where z: "fl (s' / s) = Some z" and az: "\<bar>z\<bar> \<le> 2 * \<bar>s' / s\<bar> + 1"
    by blast
  have az: "\<bar>z\<bar> \<le> 51" using az r25 by simp
  have dz: "\<bar>d * z\<bar> \<le> 102 * A + 51"
  proof -
    have "\<bar>d * z\<bar> \<le> \<bar>d\<bar> * 51"
      unfolding abs_mult using az by (intro mult_left_mono) simp_all
    then show ?thesis using ad by simp
  qed
  then have "\<bar>d * z\<bar> \<le> B" using AB A0 by simp
  from fd [OF this] obtain t where t: "fl (d * z) = Some t" and at: "\<bar>t\<bar> \<le> 2 * \<bar>d * z\<bar> + 1"
    by blast
  have at: "\<bar>t\<bar> \<le> 204 * A + 103" using at dz by simp
  have "\<bar>P - t\<bar> \<le> \<bar>P\<bar> + \<bar>t\<bar>" by simp
  then have pt: "\<bar>P - t\<bar> \<le> 205 * A + 103" using at PA by simp
  then have "\<bar>P - t\<bar> \<le> B" using AB A0 by simp
  from fd [OF this] obtain off' where o': "fl (P - t) = Some off'"
      and ao: "\<bar>off'\<bar> \<le> 2 * \<bar>P - t\<bar> + 1"
    by blast
  have ao: "\<bar>off'\<bar> \<le> 410 * A + 207" using ao pt by simp
  have "\<bar>P - off'\<bar> \<le> \<bar>P\<bar> + \<bar>off'\<bar>" by simp
  then have po: "\<bar>P - off'\<bar> \<le> 411 * A + 207" using ao PA by simp
  then have "\<bar>P - off'\<bar> \<le> B" using AB A0 by simp
  from fd [OF this] obtain d' where d': "fl (P - off') = Some d'"
      and ad': "\<bar>d'\<bar> \<le> 2 * \<bar>P - off'\<bar> + 1"
    by blast
  have ad': "\<bar>d'\<bar> \<le> 822 * A + 415" using ad' po by simp
  have "\<bar>d' / s'\<bar> \<le> 4110 * A + 2075" using abs_div_by_scale [OF s'(1), of d'] ad' by simp
  then have "\<bar>d' / s'\<bar> \<le> B" using AB A0 by simp
  from fd [OF this] obtain w1 where w1: "fl (d' / s') = Some w1" by blast
  have "toWorld_double P off s = Some w0"
    by (simp add: toWorld_double_def d_sub_def d_div_def d w0 sn)
  moreover have "zoomOffset_double P off s s' = Some off'"
    by (simp add: zoomOffset_double_def d_sub_def d_div_def d_mul_def d z t o' sn)
  moreover have "toWorld_double P off' s' = Some w1"
    by (simp add: toWorld_double_def d_sub_def d_div_def d' w1 sn)
  ultimately show ?thesis by blast
qed

lemma anchoring_defined:
  assumes "MIN_ZOOM \<le> s" "s \<le> MAX_ZOOM" "MIN_ZOOM \<le> s'" "s' \<le> MAX_ZOOM"
      and "\<bar>P\<bar> + \<bar>off\<bar> \<le> 2 ^ 1000"
  shows "\<exists>w0 off' w1. toWorld_double P off s = Some w0
           \<and> zoomOffset_double P off s s' = Some off'
           \<and> toWorld_double P off' s' = Some w1"
  using assms(1-4) by (intro anchoring_defined_scaled [OF _ _ _ _ assms(5)])
    (simp_all add: MIN_ZOOM_def MAX_ZOOM_def)

text \<open>
  Claim C2, as amended. For every focal device point \<open>P\<close>, every offset and every scale and
  new scale within \<open>[MIN_ZOOM, MAX_ZOOM]\<close>, a zoom anchored at the focal point, which
  recomputes the offset as \<open>offset' = P - (P - offset) * (newScale / scale)\<close> in
  double-precision arithmetic as the wheel-zoom handler does, leaves the world coordinate of
  the focal point, \<open>(P - offset) / scale\<close> in double-precision arithmetic, unchanged up to
  rounding: when the computations return finite numbers, the coordinate after the zoom
  differs from the coordinate before by at most \<open>(\<bar>P\<bar> + \<bar>offset\<bar>) / 2 ^ 40 + 1 / 2 ^ 1067\<close>.
  The two need not be equal.
\<close>

theorem zoom_keeps_focal_point_up_to_rounding:
  assumes "MIN_ZOOM \<le> s" and "s \<le> MAX_ZOOM"
      and "MIN_ZOOM \<le> s'" and "s' \<le> MAX_ZOOM"
      and "toWorld_double P off s = Some w0"
      and "zoomOffset_double P off s s' = Some off'"
      and "toWorld_double P off' s' = Some w1"
  shows "\<bar>w1 - w0\<bar> \<le> (\<bar>P\<bar> + \<bar>off\<bar>) / 2 ^ 40 + 1 / 2 ^ 1067"
proof -
  have r: "1 / 5 \<le> s" "s \<le> 5" "1 / 5 \<le> s'" "s' \<le> 5"
    using assms(1-4) by (simp_all add: MIN_ZOOM_def MAX_ZOOM_def)
  from assms(5) obtain d where d: "fl (P - off) = Some d" and w0: "fl (d / s) = Some w0"
    using r(1)
    by (auto simp add: toWorld_double_def d_sub_def d_div_def bind_eq_Some_conv split: if_splits)
  from assms(6) obtain z t where z: "fl (s' / s) = Some z" and t: "fl (d * z) = Some t"
      and o': "fl (P - t) = Some off'"
    using r(1) d
    by (auto simp add: zoomOffset_double_def d_sub_def d_div_def d_mul_def bind_eq_Some_conv
          split: if_splits)
  from assms(7) obtain d' where d': "fl (P - off') = Some d'" and w1: "fl (d' / s') = Some w1"
    using r(3)
    by (auto simp add: toWorld_double_def d_sub_def d_div_def bind_eq_Some_conv split: if_splits)
  show ?thesis
    by (rule anchoring_error [OF r d w0 z t o' d' w1])
qed

text \<open>
  The theorem at the example: the world coordinate before the zoom is the double nearest to
  0.1, after the zoom it is the next double, and the difference is within the bound.
\<close>

theorem zoom_keeps_focal_point_up_to_rounding_witness:
  "MIN_ZOOM \<le> 1 \<and> 3 / 2 \<le> MAX_ZOOM
   \<and> toWorld_double X01 0 1 = Some X01
   \<and> zoomOffset_double X01 0 1 (3 / 2) = Some (- (1801439850948199 / 36028797018963968))
   \<and> toWorld_double X01 (- (1801439850948199 / 36028797018963968)) (3 / 2)
       = Some (7205759403792795 / 72057594037927936)
   \<and> \<bar>7205759403792795 / 72057594037927936 - X01\<bar> \<le> (\<bar>X01\<bar> + \<bar>0\<bar>) / 2 ^ 40 + 1 / 2 ^ 1067"
proof -
  have m: "MIN_ZOOM \<le> 1" "1 \<le> MAX_ZOOM" "MIN_ZOOM \<le> 3 / 2" "3 / 2 \<le> MAX_ZOOM"
    by (simp_all add: MIN_ZOOM_def MAX_ZOOM_def)
  note b = zoom_keeps_focal_point_up_to_rounding
             [OF m zoom_example_world_before zoom_example_offset zoom_example_world_after]
  show ?thesis
    using m(1) m(4) zoom_example_world_before zoom_example_offset zoom_example_world_after b
    by blast
qed

text \<open>
  Claim C2 as stated, refuted. At the example the world coordinate of the focal point is
  \<open>3602879701896397 / 2 ^ 55\<close> (printed \<^verbatim>\<open>0.1\<close>) before the zoom and
  \<open>7205759403792795 / 2 ^ 56\<close> (printed \<^verbatim>\<open>0.10000000000000002\<close>) after it.
\<close>

theorem zoom_moves_focal_point_in_doubles:
  "physical_double X01 0 1 = Some X01
   \<and> toWorld_double X01 0 1 = Some X01
   \<and> zoomOffset_double X01 0 1 (3 / 2) = Some (- (1801439850948199 / 36028797018963968))
   \<and> toWorld_double X01 (- (1801439850948199 / 36028797018963968)) (3 / 2)
       = Some (7205759403792795 / 72057594037927936)
   \<and> 7205759403792795 / 72057594037927936 \<noteq> X01"
proof -
  have "7205759403792795 / 72057594037927936 \<noteq> X01"
    by (simp add: X01_def)
  then show ?thesis
    using zoom_example_physical zoom_example_world_before zoom_example_offset
      zoom_example_world_after
    by blast
qed

section \<open>Eraser: results\<close>



lemma strokeHit_iff:
  "strokeHit r q s \<longleftrightarrow> (\<exists>p \<in> set (points s). getDistance p q < r + strokeWidth s / 2)"
  by (simp add: strokeHit_def Let_def list_ex_iff)

text \<open>The test is strict: a stroke whose nearest point is exactly at the radius is not hit.\<close>

lemma strokeHit_boundary:
  assumes "\<forall>p \<in> set (points s). getDistance p q \<ge> r + strokeWidth s / 2"
  shows "\<not> strokeHit r q s"
  using assms by (auto simp add: strokeHit_iff)








section \<open>Selection: results\<close>

lemma select_drag_rect:
  assumes "map_has (pointerId e) (pointers app)" and "length (pointers app) = 1"
      and "draggedItem app = None" and "selectionStartPoint app = Some st"
  shows "map_sum id selectionRect (handlePointerMove env ToolSelect e app) =
           (let point = getPointInWorldSpace env (viewTransform app) (clientX e) (clientY e)
            in Inr (Some \<lparr>b_x = min (p_x st) (p_x point), b_y = min (p_y st) (p_y point),
                          b_width = \<bar>p_x st - p_x point\<bar>, b_height = \<bar>p_y st - p_y point\<bar>\<rparr>))"
  using assms by (simp add: handlePointerMove_def Let_def map_set_def)

text \<open>
  World units: a distance of \<open>d\<close> CSS pixels on the canvas is \<open>d * devicePixelRatio / scale\<close>
  units of the page.
\<close>

lemma world_distance_of_client_distance:
  assumes "canvasRect env = Some rect"
  shows "p_x (getPointInWorldSpace env vt x1 y1) - p_x (getPointInWorldSpace env vt x0 y0)
           = (x1 - x0) * dpr_of env / scale vt"
    and "p_y (getPointInWorldSpace env vt x1 y1) - p_y (getPointInWorldSpace env vt x0 y0)
           = (y1 - y0) * dpr_of env / scale vt"
  using assms
  by (simp_all add: getPointInWorldSpace_def Let_def pt_def diff_divide_distrib [symmetric]
        left_diff_distrib)

lemma selectDrag_result:
  assumes "canvasRect env = Some \<lparr>rect_left = 0, rect_top = 0\<rparr>"
      and "0 < devicePixelRatio env" and "0 \<le> cx" and "0 \<le> cy"
  shows "map_sum id selectionRect (run exampleApp (selectDrag env cx cy)) =
           Inr (if cx * devicePixelRatio env < 10 \<or> cy * devicePixelRatio env < 10 then None
                else Some \<lparr>b_x = 0, b_y = 0, b_width = cx * devicePixelRatio env,
                            b_height = cy * devicePixelRatio env\<rparr>)"
proof -
  have sc: "scale (viewTransform exampleApp) = 1" "offsetX (viewTransform exampleApp) = 0"
      "offsetY (viewTransform exampleApp) = 0" "draggedItem exampleApp = None"
      "isHoveringText exampleApp = False" "currentStrokePoints exampleApp = []"
    by (simp_all add: exampleApp_def initialApp_def)
  have nn: "0 \<le> cx * devicePixelRatio env" "0 \<le> cy * devicePixelRatio env"
    using assms by simp_all
  show ?thesis
    unfolding selectDrag_def run.simps dispatch.simps example_select_down [OF assms(1)]
    using assms nn
    by (simp add: handlePointerMove_def handlePointerUp_def Let_def touch_def map_set_def
          map_has_def getPointInWorldSpace_def pt_def dpr_of_def sc abs_of_nonneg)
qed

text \<open>
  Claim C7, as amended. For every completed select-tool drag whose normalized selection
  rectangle has width below 10 or height below 10 in world units, no selection is retained on
  pointer release; a rectangle of width and height at least 10 world units is retained. World
  units are the units of the page, in which the move handler stores the rectangle: a length in
  CSS pixels times the device pixel ratio, divided by the zoom scale.
\<close>

theorem select_release_discards_small:
  assumes "selectionRect app = Some r"
  shows "selectionRect (handlePointerUp env ToolSelect now e app)
           = (if b_width r < 10 \<or> b_height r < 10 then None else Some r)"
  using assms
  by (simp add: handlePointerUp_def Let_def handlers_frame split: option.split)

theorem select_release_discards_small_witness:
  "selectionRect (exampleApp\<lparr>selectionRect := Some \<lparr>b_x = 0, b_y = 0, b_width = 5, b_height = 50\<rparr>\<rparr>)
     = Some \<lparr>b_x = 0, b_y = 0, b_width = 5, b_height = 50\<rparr>
   \<and> selectionRect (handlePointerUp exampleEnv ToolSelect 0 (touch 1 5 50)
        (exampleApp\<lparr>selectionRect := Some \<lparr>b_x = 0, b_y = 0, b_width = 5, b_height = 50\<rparr>\<rparr>)) = None
   \<and> map_sum id selectionRect (run exampleApp (selectDrag exampleEnv 5 50)) = Inr None"
proof -
  have r: "selectionRect (exampleApp\<lparr>selectionRect := Some \<lparr>b_x = 0, b_y = 0, b_width = 5, b_height = 50\<rparr>\<rparr>)
             = Some \<lparr>b_x = 0, b_y = 0, b_width = 5, b_height = 50\<rparr>"
    by simp
  have d: "map_sum id selectionRect (run exampleApp (selectDrag exampleEnv 5 50)) = Inr None"
    by (subst selectDrag_result) (simp_all add: exampleEnv_def)
  show ?thesis
    using r d select_release_discards_small [OF r, of exampleEnv 0 "touch 1 5 50"] by simp
qed

text \<open>
  The claim as stated, with the width and height in device-independent units (CSS pixels),
  fails on a display of device pixel ratio 2: a drag of 6 by 6 CSS pixels at scale 1 is a
  rectangle of 12 by 12 world units and is retained. The same drag at ratio 1 is discarded.
\<close>

theorem select_drag_of_6px_is_retained:
  "map_sum id selectionRect (run exampleApp (selectDrag exampleEnv2 6 6))
     = Inr (Some \<lparr>b_x = 0, b_y = 0, b_width = 12, b_height = 12\<rparr>)
   \<and> map_sum id selectionRect (run exampleApp (selectDrag exampleEnv 6 6)) = Inr None"
proof -
  have a: "map_sum id selectionRect (run exampleApp (selectDrag exampleEnv2 6 6))
     = Inr (Some \<lparr>b_x = 0, b_y = 0, b_width = 12, b_height = 12\<rparr>)"
    by (subst selectDrag_result) (simp_all add: exampleEnv2_def)
  have b: "map_sum id selectionRect (run exampleApp (selectDrag exampleEnv 6 6)) = Inr None"
    by (subst selectDrag_result) (simp_all add: exampleEnv_def)
  show ?thesis using a b by simp
qed

section \<open>Recognition: results\<close>

text \<open>
  Claim C9. If the handwriting-recognition call fails (the service throws, so the promise is
  rejected), the drawing model is left as it is, in whatever state the rejection arrives: the
  history and its cursor are unchanged, so no text item is inserted, no stroke is deleted and
  no history entry is created. Only an error message is set, with a timer of 5000 ms whose
  callback clears it, and the loading flag is reset. The step before the \<^verbatim>\<open>await\<close> does not
  touch the history either.
\<close>

theorem recognition_failure_keeps_model:
  "hist (handleRecognize_settle now req (Rejected err) app) = hist app
 \<and> currentPage (handleRecognize_settle now req (Rejected err) app) = currentPage app
 \<and> error (handleRecognize_settle now req (Rejected err) app)
      = Some ''Failed to recognize handwriting. Please try again.''
 \<and> errorTimers (handleRecognize_settle now req (Rejected err) app) = errorTimers app @ [5000]
 \<and> isLoading (handleRecognize_settle now req (Rejected err) app) = False
 \<and> error (errorTimerFired (handleRecognize_settle now req (Rejected err) app)) = None
 \<and> hist (errorTimerFired (handleRecognize_settle now req (Rejected err) app)) = hist app
 \<and> hist (fst (handleRecognize_begin language imageData bnds app)) = hist app"
  by (simp add: handleRecognize_settle_def handleRecognize_begin_def errorTimerFired_def
        currentPage_def state_of_def Let_def)

end
